theory Spec2Isabelle
  imports Main "HOL-Library.Sublist" "HOL-Library.AList"
begin

section \<open>Strings of the host language\<close>

text \<open>
  A string of the program is a sequence of code units. It is modelled as a \<^typ>\<open>string\<close>, each
  \<^typ>\<open>char\<close> standing for the code unit of the same number, so the model covers the
  descriptions over U+0000 .. U+00FF (ASCII and Latin-1). All the vocabularies, names, tags and
  patterns of the program are ASCII.
\<close>

definition upperCaseLetters :: string where
  \<comment> \<open>A-Z, then the Latin-1 capitals U+00C0 .. U+00DE but the multiplication sign U+00D7\<close>
  "upperCaseLetters =
     ''ABCDEFGHIJKLMNOPQRSTUVWXYZ'' @
       [CHR 0xC0, CHR 0xC1, CHR 0xC2, CHR 0xC3, CHR 0xC4, CHR 0xC5, CHR 0xC6, CHR 0xC7,
        CHR 0xC8, CHR 0xC9, CHR 0xCA, CHR 0xCB, CHR 0xCC, CHR 0xCD, CHR 0xCE, CHR 0xCF,
        CHR 0xD0, CHR 0xD1, CHR 0xD2, CHR 0xD3, CHR 0xD4, CHR 0xD5, CHR 0xD6, CHR 0xD8,
        CHR 0xD9, CHR 0xDA, CHR 0xDB, CHR 0xDC, CHR 0xDD, CHR 0xDE]"

definition lowerCaseLetters :: string where
  \<comment> \<open>a-z, then the Latin-1 small letters U+00E0 .. U+00FE but the division sign U+00F7:
      each is the capital at the same place of \<open>upperCaseLetters\<close>, 32 further up\<close>
  "lowerCaseLetters =
     ''abcdefghijklmnopqrstuvwxyz'' @
       [CHR 0xE0, CHR 0xE1, CHR 0xE2, CHR 0xE3, CHR 0xE4, CHR 0xE5, CHR 0xE6, CHR 0xE7,
        CHR 0xE8, CHR 0xE9, CHR 0xEA, CHR 0xEB, CHR 0xEC, CHR 0xED, CHR 0xEE, CHR 0xEF,
        CHR 0xF0, CHR 0xF1, CHR 0xF2, CHR 0xF3, CHR 0xF4, CHR 0xF5, CHR 0xF6, CHR 0xF8,
        CHR 0xF9, CHR 0xFA, CHR 0xFB, CHR 0xFC, CHR 0xFD, CHR 0xFE]"

definition toLowerChar :: "char \<Rightarrow> char" where
  \<comment> \<open>\<open>toLowerCase\<close> on one code unit\<close>
  "toLowerChar c =
     (case map_of (zip upperCaseLetters lowerCaseLetters) c of None \<Rightarrow> c | Some l \<Rightarrow> l)"

definition toLowerCase :: "string \<Rightarrow> string" where
  "toLowerCase s = map toLowerChar s"

definition isWhitespace :: "char \<Rightarrow> bool" where
  \<comment> \<open>The class \<open>\s\<close>: TAB, LF, VT, FF, CR, SPACE and NO-BREAK SPACE.\<close>
  "isWhitespace c =
     (c \<in> set [CHR 0x09, CHR 0x0A, CHR 0x0B, CHR 0x0C, CHR 0x0D, CHR 0x20, CHR 0xA0])"

function splitFrom :: "string \<Rightarrow> string \<Rightarrow> string list" where
  \<comment> \<open>\<open>splitFrom cur rest\<close>: \<open>cur\<close> is the piece read since the last separator. A separator is
      a maximal run of whitespace (\<open>\s+\<close> is greedy); the piece before it is pushed even when
      empty, and so is the piece after the last separator.\<close>
  "splitFrom cur [] = [cur]"
| "splitFrom cur (c # cs) =
     (if isWhitespace c then cur # splitFrom [] (dropWhile isWhitespace cs)
      else splitFrom (cur @ [c]) cs)"
  by pat_completeness auto
termination
  by (relation "measure (\<lambda>(cur, rest). length rest)") (auto simp: less_Suc_eq_le length_dropWhile_le)

definition split_ws :: "string \<Rightarrow> string list" where
  \<comment> \<open>\<open>s.split(/\s+/)\<close>\<close>
  "split_ws s = splitFrom [] s"

primrec startsWith :: "string \<Rightarrow> string \<Rightarrow> bool" where
  "startsWith s [] = True"
| "startsWith s (c # cs) = (case s of [] \<Rightarrow> False | d # ds \<Rightarrow> d = c \<and> startsWith ds cs)"

fun includes_str :: "string \<Rightarrow> string \<Rightarrow> bool" where
  \<comment> \<open>\<open>s.includes(t)\<close> on strings: \<open>t\<close> occurs in \<open>s\<close> as a contiguous run. (The name
      \<open>includes\<close> is a keyword of the theory language; on arrays \<open>includes\<close> is membership,
      written \<open>x \<in> set xs\<close>.)\<close>
  "includes_str [] t = (t = [])"
| "includes_str (c # cs) t = (startsWith (c # cs) t \<or> includes_str cs t)"

definition removePlural :: "string \<Rightarrow> string" where
  \<comment> \<open>\<open>g.replace(/s$/, '')\<close>\<close>
  "removePlural g = (if g \<noteq> [] \<and> last g = CHR ''s'' then butlast g else g)"

section \<open>The asset catalog\<close>

text \<open>
  An entry of \<open>SAMPLE_ASSETS\<close> has the fields \<open>id\<close>, \<open>name\<close>, \<open>type\<close>, \<open>gender\<close> and \<open>tags\<close>, all
  of them present in every entry: \<open>name\<close> is a string, \<open>gender\<close> and \<open>tags\<close> are arrays of
  strings. An \<open>AssetMatch\<close> has \<open>id\<close>, \<open>name\<close>, \<open>type\<close>, \<open>score\<close> and \<open>gender\<close>. The fields of
  the two records are told apart by a prefix. A score is a sum of the small numbers 10, 5, 3,
  2 and 1, one term for a token at most, so it is a natural number far below the range where
  the numbers of the host language stop being exact.
\<close>

record Asset =
  asset_id :: string
  asset_name :: string
  asset_type :: string
  asset_gender :: "string list"
  asset_tags :: "string list"

record AssetMatch =
  match_id :: string
  match_name :: string
  match_type :: string
  score :: nat
  match_gender :: "string list"

definition mkAsset :: "string \<Rightarrow> string \<Rightarrow> string \<Rightarrow> string list \<Rightarrow> string list \<Rightarrow> Asset" where
  "mkAsset i n t g ts =
     \<lparr>asset_id = i, asset_name = n, asset_type = t, asset_gender = g, asset_tags = ts\<rparr>"

definition outfit_leather_jacket_black :: Asset where
  "outfit_leather_jacket_black =
     mkAsset ''outfit_leather_jacket_black'' ''Black Leather Jacket'' ''outfit''
       [''male'', ''female''] [''jacket'', ''leather'', ''black'', ''casual'', ''cool'']"

definition outfit_blue_jeans :: Asset where
  "outfit_blue_jeans =
     mkAsset ''outfit_blue_jeans'' ''Blue Denim Jeans'' ''bottom''
       [''male'', ''female''] [''jeans'', ''denim'', ''blue'', ''casual'', ''pants'']"

definition outfit_white_tshirt :: Asset where
  "outfit_white_tshirt =
     mkAsset ''outfit_white_tshirt'' ''White T-Shirt'' ''top''
       [''male'', ''female''] [''shirt'', ''tshirt'', ''white'', ''casual'', ''basic'']"

definition outfit_hoodie_gray :: Asset where
  "outfit_hoodie_gray =
     mkAsset ''outfit_hoodie_gray'' ''Gray Hoodie'' ''top''
       [''male'', ''female''] [''hoodie'', ''gray'', ''casual'', ''comfortable'', ''sweater'']"

definition outfit_business_suit :: Asset where
  "outfit_business_suit =
     mkAsset ''outfit_business_suit'' ''Business Suit'' ''outfit''
       [''male'', ''female''] [''suit'', ''business'', ''formal'', ''professional'', ''jacket'']"

definition glasses_sunglasses_black :: Asset where
  "glasses_sunglasses_black =
     mkAsset ''glasses_sunglasses_black'' ''Black Sunglasses'' ''glasses''
       [''male'', ''female''] [''sunglasses'', ''black'', ''cool'', ''glasses'', ''eyewear'']"

definition glasses_reading :: Asset where
  "glasses_reading =
     mkAsset ''glasses_reading'' ''Reading Glasses'' ''glasses''
       [''male'', ''female''] [''glasses'', ''reading'', ''eyewear'', ''clear'']"

definition hair_short_black :: Asset where
  "hair_short_black =
     mkAsset ''hair_short_black'' ''Short Black Hair'' ''hair''
       [''male''] [''hair'', ''short'', ''black'', ''neat'']"

definition hair_long_brown :: Asset where
  "hair_long_brown =
     mkAsset ''hair_long_brown'' ''Long Brown Hair'' ''hair''
       [''female''] [''hair'', ''long'', ''brown'', ''flowing'']"

definition hair_beard_full :: Asset where
  "hair_beard_full =
     mkAsset ''hair_beard_full'' ''Full Beard'' ''facialHair''
       [''male''] [''beard'', ''facial'', ''hair'', ''full'', ''masculine'']"

definition SAMPLE_ASSETS :: "(string \<times> Asset) list" where
  \<comment> \<open>The object literal, as \<open>Object.entries\<close> lists it: no key is an array index, so the
      entries come in the order they are written.\<close>
  "SAMPLE_ASSETS =
     [(''outfit_leather_jacket_black'', outfit_leather_jacket_black),
      (''outfit_blue_jeans'', outfit_blue_jeans),
      (''outfit_white_tshirt'', outfit_white_tshirt),
      (''outfit_hoodie_gray'', outfit_hoodie_gray),
      (''outfit_business_suit'', outfit_business_suit),
      (''glasses_sunglasses_black'', glasses_sunglasses_black),
      (''glasses_reading'', glasses_reading),
      (''hair_short_black'', hair_short_black),
      (''hair_long_brown'', hair_long_brown),
      (''hair_beard_full'', hair_beard_full)]"

record AssetMapper =
  assets :: "(string \<times> Asset) list"

definition new_AssetMapper :: AssetMapper where
  \<comment> \<open>the constructor\<close>
  "new_AssetMapper = \<lparr>assets = SAMPLE_ASSETS\<rparr>"

section \<open>extractSearchTerms\<close>

text \<open>
  The field \<open>keywords\<close> is written \<open>keywords'\<close>, \<open>keywords\<close> being a keyword of the theory
  language. The five vocabularies are local constants of \<open>extractSearchTerms\<close>; three of them
  have the names of fields of its result, so they are called \<open>colorTerms\<close>, \<open>materialTerms\<close>,
  \<open>clothingTypes\<close>, \<open>styleTerms\<close> and \<open>genderTerms\<close> here.
\<close>

record SearchTerms =
  colors :: "string list"
  materials :: "string list"
  types :: "string list"
  styles :: "string list"
  gender :: "string list"
  keywords' :: "string list"

definition colorTerms :: "string list" where
  "colorTerms =
     [''black'', ''white'', ''red'', ''blue'', ''green'', ''yellow'', ''orange'', ''purple'',
      ''pink'', ''brown'', ''gray'', ''grey'', ''navy'', ''beige'', ''tan'', ''gold'', ''silver'']"

definition materialTerms :: "string list" where
  "materialTerms =
     [''leather'', ''denim'', ''cotton'', ''silk'', ''wool'', ''polyester'', ''velvet'',
      ''suede'', ''canvas'', ''nylon'', ''satin'', ''lace'', ''metal'', ''plastic'']"

definition clothingTypes :: "string list" where
  "clothingTypes =
     [''jacket'', ''coat'', ''shirt'', ''tshirt'', ''t-shirt'', ''pants'', ''jeans'',
      ''shorts'', ''dress'', ''skirt'', ''suit'', ''hoodie'', ''sweater'', ''vest'',
      ''blazer'', ''hat'', ''cap'', ''glasses'', ''sunglasses'', ''shoes'', ''boots'',
      ''sneakers'', ''hair'', ''beard'', ''mustache'', ''top'', ''bottom'', ''outfit'']"

definition styleTerms :: "string list" where
  "styleTerms =
     [''casual'', ''formal'', ''business'', ''sporty'', ''athletic'', ''vintage'',
      ''modern'', ''classic'', ''punk'', ''gothic'', ''hipster'', ''preppy'', ''street'',
      ''elegant'', ''simple'', ''fancy'', ''retro'', ''trendy'']"

definition genderTerms :: "string list" where
  "genderTerms =
     [''male'', ''female'', ''man'', ''woman'', ''men'', ''women'', ''boy'', ''girl'',
      ''masculine'', ''feminine'', ''unisex'', ''neutral'']"

definition extractSearchTerms :: "string \<Rightarrow> SearchTerms" where
  "extractSearchTerms description =
     (let lowerDesc = toLowerCase description;
          words = split_ws lowerDesc
      in \<lparr>colors = filter (\<lambda>w. w \<in> set colorTerms) words,
          materials = filter (\<lambda>w. w \<in> set materialTerms) words,
          types = filter (\<lambda>w. w \<in> set clothingTypes) words,
          styles = filter (\<lambda>w. w \<in> set styleTerms) words,
          gender = filter (\<lambda>w. w \<in> set genderTerms) words,
          keywords' = words\<rparr>)"

section \<open>calculateMatchScore\<close>

definition genderMatch :: "Asset \<Rightarrow> SearchTerms \<Rightarrow> bool" where
  \<comment> \<open>the \<open>some\<close> inside \<open>some\<close> of the gender check\<close>
  "genderMatch asset searchTerms =
     list_ex (\<lambda>g. let normalizedGender = removePlural g
                  in list_ex (\<lambda>ag. includes_str (toLowerCase ag) normalizedGender) (asset_gender asset))
       (gender searchTerms)"

definition calculateMatchScore :: "Asset \<Rightarrow> SearchTerms \<Rightarrow> nat" where
  "calculateMatchScore asset searchTerms =
     (let assetName = toLowerCase (asset_name asset);
          assetTags = asset_tags asset;
          score = 0;
          score = foldl (\<lambda>score type.
                    if includes_str assetName type \<or> asset_type asset = type \<or> type \<in> set assetTags
                    then score + 10 else score) score (types searchTerms);
          score = foldl (\<lambda>score color.
                    if includes_str assetName color \<or> color \<in> set assetTags
                    then score + 5 else score) score (colors searchTerms);
          score = foldl (\<lambda>score material.
                    if includes_str assetName material \<or> material \<in> set assetTags
                    then score + 5 else score) score (materials searchTerms);
          score = foldl (\<lambda>score style.
                    if includes_str assetName style \<or> style \<in> set assetTags
                    then score + 3 else score) score (styles searchTerms);
          score = (if length (gender searchTerms) > 0 \<and> genderMatch asset searchTerms
                   then score + 2 else score);
          score = foldl (\<lambda>score keyword.
                    if length keyword > 3
                    then (if includes_str assetName keyword \<or> list_ex (\<lambda>tag. includes_str tag keyword) assetTags
                          then score + 1 else score)
                    else score) score (keywords' searchTerms)
      in score)"

section \<open>findAssets\<close>

fun insertBy :: "('a \<Rightarrow> 'a \<Rightarrow> int) \<Rightarrow> 'a \<Rightarrow> 'a list \<Rightarrow> 'a list" where
  "insertBy cmp x [] = [x]"
| "insertBy cmp x (y # ys) = (if cmp x y \<le> 0 then x # y # ys else y # insertBy cmp x ys)"

definition sortBy :: "('a \<Rightarrow> 'a \<Rightarrow> int) \<Rightarrow> 'a list \<Rightarrow> 'a list" where
  \<comment> \<open>\<open>Array.prototype.sort\<close> with a comparator: the sort is stable, so with a consistent
      comparator its result is the one of this insertion sort. An element moves in front of
      the elements after it that it does not compare greater than.\<close>
  "sortBy cmp xs = foldr (insertBy cmp) xs []"

definition findAssets :: "AssetMapper \<Rightarrow> string \<Rightarrow> AssetMatch list" where
  "findAssets this description =
     (let searchTerms = extractSearchTerms description;
          matches = foldl (\<lambda>matches (id, asset).
                      let score = calculateMatchScore asset searchTerms
                      in if score > 0
                         then matches @ [\<lparr>match_id = id, match_name = asset_name asset,
                                          match_type = asset_type asset, score = score,
                                          match_gender = asset_gender asset\<rparr>]
                         else matches) [] (assets this)
      in take 10 (sortBy (\<lambda>a b. int (score b) - int (score a)) matches))"

section \<open>buildAvatarConfig\<close>

subsection \<open>The two gender patterns\<close>

text \<open>
  The patterns \<open>/\b(man|male|boy|gentleman)\b/i\<close> and \<open>/\b(woman|female|girl|lady)\b/i\<close> use
  literal runs, alternation, sequence and the word boundary. A matcher state is the code unit
  before the current position (none at the start of the input) and the rest of the input.
  \<open>matchEnds\<close> lists the states a match of the pattern can end in, in the order backtracking
  tries them.
\<close>

datatype regex = Str string | Alt regex regex | Seq regex regex | WordBoundary

definition isWordChar :: "char \<Rightarrow> bool" where
  \<comment> \<open>the class \<open>\w\<close>, which the flag \<open>i\<close> alone does not widen\<close>
  "isWordChar c =
     (c \<in> set (''abcdefghijklmnopqrstuvwxyz'' @ ''ABCDEFGHIJKLMNOPQRSTUVWXYZ'' @ ''0123456789_''))"

definition canonicalize :: "char \<Rightarrow> char" where
  \<comment> \<open>Under the flag \<open>i\<close> two code units match when their upper-case forms are equal. Within
      U+0000 .. U+00FF the upper-case form of a small letter of \<open>lowerCaseLetters\<close> is the
      capital at the same place. Every other code unit of the range stands for itself here: it
      is its own form, or (U+00B5, U+00FF) its form lies outside the range and no other code
      unit of the range has it, or (U+00DF) its upper-case form is not one code unit.\<close>
  "canonicalize c =
     (case map_of (zip lowerCaseLetters upperCaseLetters) c of None \<Rightarrow> c | Some u \<Rightarrow> u)"

primrec startsWithCI :: "string \<Rightarrow> string \<Rightarrow> bool" where
  "startsWithCI s [] = True"
| "startsWithCI s (c # cs) =
     (case s of [] \<Rightarrow> False | d # ds \<Rightarrow> canonicalize d = canonicalize c \<and> startsWithCI ds cs)"

type_synonym matchState = "char option \<times> string"

definition advance :: "nat \<Rightarrow> matchState \<Rightarrow> matchState" where
  \<comment> \<open>the state after \<open>n\<close> code units of the rest are consumed (\<open>0 < n \<le> length rest\<close>)\<close>
  "advance n st = (if n = 0 then st else (Some (snd st ! (n - 1)), drop n (snd st)))"

fun matchEnds :: "regex \<Rightarrow> matchState \<Rightarrow> matchState list" where
  "matchEnds (Str w) st = (if startsWithCI (snd st) w then [advance (length w) st] else [])"
| "matchEnds (Alt r1 r2) st = matchEnds r1 st @ matchEnds r2 st"
| "matchEnds (Seq r1 r2) st = concat (map (matchEnds r2) (matchEnds r1 st))"
| "matchEnds WordBoundary st =
     (let a = (case fst st of None \<Rightarrow> False | Some p \<Rightarrow> isWordChar p);
          b = (case snd st of [] \<Rightarrow> False | c # cs \<Rightarrow> isWordChar c)
      in if a = b then [] else [st])"

fun searchFrom :: "regex \<Rightarrow> char option \<Rightarrow> string \<Rightarrow> bool" where
  \<comment> \<open>a match is tried at every position from the current one on, the end of the input
      included\<close>
  "searchFrom r prev [] = (matchEnds r (prev, []) \<noteq> [])"
| "searchFrom r prev (c # cs) = (matchEnds r (prev, c # cs) \<noteq> [] \<or> searchFrom r (Some c) cs)"

definition regexMatches :: "regex \<Rightarrow> string \<Rightarrow> bool" where
  \<comment> \<open>\<open>description.match(r)\<close> is not null\<close>
  "regexMatches r description = searchFrom r None description"

definition malePattern :: regex where
  "malePattern =
     Seq WordBoundary
       (Seq (Alt (Str ''man'') (Alt (Str ''male'') (Alt (Str ''boy'') (Str ''gentleman''))))
          WordBoundary)"

definition femalePattern :: regex where
  "femalePattern =
     Seq WordBoundary
       (Seq (Alt (Str ''woman'') (Alt (Str ''female'') (Alt (Str ''girl'') (Str ''lady''))))
          WordBoundary)"

definition determineGender :: "string \<Rightarrow> string" where
  \<comment> \<open>the conditional that \<open>buildAvatarConfig\<close> binds to its local \<open>genderMatch\<close>\<close>
  "determineGender description =
     (if regexMatches malePattern description then ''male''
      else if regexMatches femalePattern description then ''female''
      else ''neutral'')"

subsection \<open>Grouping by type and the configuration\<close>

definition typeMap :: "(string \<times> string) list" where
  "typeMap =
     [(''hair'', ''hairStyle''),
      (''facialHair'', ''facialHairStyle''),
      (''eyebrows'', ''eyebrowStyle''),
      (''eyes'', ''eyeColor''),
      (''outfit'', ''outfit''),
      (''top'', ''outfit''),
      (''bottom'', ''outfit''),
      (''footwear'', ''footwear''),
      (''glasses'', ''glasses''),
      (''headwear'', ''headwear''),
      (''facewear'', ''facewear''),
      (''neckwear'', ''neckwear''),
      (''earrings'', ''earrings''),
      (''makeup'', ''makeup'')]"

definition mapTypeToConfigKey :: "string \<Rightarrow> string option" where
  \<comment> \<open>\<open>typeMap[type] || null\<close>; \<open>None\<close> is \<open>null\<close>. Every value of the table is a non-empty
      string.\<close>
  "mapTypeToConfigKey type = map_of typeMap type"

record AvatarConfig =
  config_gender :: string
  config_assets :: "AssetMatch list"
  config :: "(string \<times> string) list"

text \<open>
  \<open>assetsByType\<close> and \<open>config\<close> are objects with string keys. Each is modelled as the list of
  its entries in the order \<open>Object.entries\<close> gives them: a new key goes to the end, and a store
  under a key the object has keeps the key's place (\<^const>\<open>AList.update\<close>). The keys here
  are the types of the catalog and the values of \<open>typeMap\<close>, none of which is an array index
  or a property that an empty object inherits.
\<close>

definition groupByType :: "AssetMatch list \<Rightarrow> (string \<times> AssetMatch) list" where
  \<comment> \<open>the first \<open>forEach\<close> of \<open>buildAvatarConfig\<close>\<close>
  "groupByType found =
     foldl (\<lambda>assetsByType asset.
              if (case map_of assetsByType (match_type asset) of
                    None \<Rightarrow> True
                  | Some best \<Rightarrow> score best < score asset)
              then AList.update (match_type asset) asset assetsByType
              else assetsByType) [] found"

definition buildConfig :: "(string \<times> AssetMatch) list \<Rightarrow> (string \<times> string) list" where
  \<comment> \<open>the second \<open>forEach\<close> of \<open>buildAvatarConfig\<close>\<close>
  "buildConfig assetsByType =
     foldl (\<lambda>config (type, asset).
              case mapTypeToConfigKey type of
                None \<Rightarrow> config
              | Some configKey \<Rightarrow> AList.update configKey (match_id asset) config) [] assetsByType"

definition buildAvatarConfig :: "AssetMapper \<Rightarrow> string \<Rightarrow> AvatarConfig" where
  "buildAvatarConfig this description =
     (let genderMatch = determineGender description;
          assets = findAssets this description;
          assetsByType = groupByType assets;
          config = buildConfig assetsByType
      in \<lparr>config_gender = genderMatch, config_assets = map snd assetsByType, config = config\<rparr>)"

section \<open>The same code with the failing reads written out\<close>

text \<open>
  The program has no \<open>throw\<close>. What can fail at run time is a method call or a property read
  on a value that is \<open>undefined\<close>, which raises a \<open>TypeError\<close>. Four receivers of the program
  can be \<open>undefined\<close>, and the code guards each of them: the name of a catalog entry (\<open>?.\<close>),
  its tags (\<open>|| []\<close>), its applicable genders (\<open>&& asset.gender\<close>), and the entry of
  \<open>assetsByType\<close> for a type (\<open>!assetsByType[asset.type] ||\<close>). In this second embedding a
  catalog entry may lack the three fields, a call or read on a missing value is the error
  value, and every guard is written where the code has it. Every other receiver is a string,
  an array or an object that the code has just built.
\<close>

datatype error = TypeError

record RawAsset =
  raw_name :: "string option"
  raw_type :: string
  raw_gender :: "string list option"
  raw_tags :: "string list option"

record RawMatch =
  raw_match_id :: string
  raw_match_name :: "string option"
  raw_match_type :: string
  raw_score :: nat
  raw_match_gender :: "string list option"

record RawAvatarConfig =
  raw_config_gender :: string
  raw_config_assets :: "RawMatch list"
  raw_config :: "(string \<times> string) list"

definition callOn :: "'a option \<Rightarrow> ('a \<Rightarrow> 'b) \<Rightarrow> error + 'b" where
  \<comment> \<open>a method call or a property read on a receiver that may be \<open>undefined\<close>\<close>
  "callOn receiver f = (case receiver of None \<Rightarrow> Inl TypeError | Some v \<Rightarrow> Inr (f v))"

definition thenE :: "error + 'a \<Rightarrow> ('a \<Rightarrow> error + 'b) \<Rightarrow> error + 'b" where
  \<comment> \<open>sequencing: an error ends the computation\<close>
  "thenE r k = (case r of Inl e \<Rightarrow> Inl e | Inr v \<Rightarrow> k v)"

primrec forEachE :: "('s \<Rightarrow> 'a \<Rightarrow> error + 's) \<Rightarrow> 's \<Rightarrow> 'a list \<Rightarrow> error + 's" where
  \<comment> \<open>\<open>forEach\<close> with a callback that updates the state \<open>s\<close> and may fail\<close>
  "forEachE f s [] = Inr s"
| "forEachE f s (x # xs) = thenE (f s x) (\<lambda>s'. forEachE f s' xs)"

primrec someE :: "('a \<Rightarrow> error + bool) \<Rightarrow> 'a list \<Rightarrow> error + bool" where
  \<comment> \<open>\<open>some\<close> with a callback that may fail; it stops at the first element that passes\<close>
  "someE f [] = Inr False"
| "someE f (x # xs) = thenE (f x) (\<lambda>b. if b then Inr True else someE f xs)"

definition calculateMatchScore_checked :: "RawAsset \<Rightarrow> SearchTerms \<Rightarrow> error + nat" where
  "calculateMatchScore_checked asset searchTerms =
     thenE (case raw_name asset of
              None \<Rightarrow> Inr None
            | Some n \<Rightarrow> thenE (callOn (raw_name asset) toLowerCase) (\<lambda>s. Inr (Some s)))
       (\<lambda>lowered.
          let assetName = (case lowered of None \<Rightarrow> [] | Some s \<Rightarrow> if s = [] then [] else s);
              assetTags = (case raw_tags asset of None \<Rightarrow> [] | Some ts \<Rightarrow> ts);
              score = 0;
              score = foldl (\<lambda>score type.
                        if includes_str assetName type \<or> raw_type asset = type \<or>
                           type \<in> set assetTags
                        then score + 10 else score) score (types searchTerms);
              score = foldl (\<lambda>score color.
                        if includes_str assetName color \<or> color \<in> set assetTags
                        then score + 5 else score) score (colors searchTerms);
              score = foldl (\<lambda>score material.
                        if includes_str assetName material \<or> material \<in> set assetTags
                        then score + 5 else score) score (materials searchTerms);
              score = foldl (\<lambda>score style.
                        if includes_str assetName style \<or> style \<in> set assetTags
                        then score + 3 else score) score (styles searchTerms)
          in thenE (if length (gender searchTerms) > 0 \<and> raw_gender asset \<noteq> None
                    then thenE (someE (\<lambda>g. let normalizedGender = removePlural g
                                            in callOn (raw_gender asset)
                                                 (list_ex (\<lambda>ag. includes_str (toLowerCase ag)
                                                                  normalizedGender)))
                                  (gender searchTerms))
                           (\<lambda>genderMatch. Inr (if genderMatch then score + 2 else score))
                    else Inr score)
               (\<lambda>score.
                  Inr (foldl (\<lambda>score keyword.
                         if length keyword > 3
                         then (if includes_str assetName keyword \<or>
                                  list_ex (\<lambda>tag. includes_str tag keyword) assetTags
                               then score + 1 else score)
                         else score) score (keywords' searchTerms))))"

definition findAssets_checked :: "(string \<times> RawAsset) list \<Rightarrow> string \<Rightarrow> error + RawMatch list" where
  "findAssets_checked catalog description =
     (let searchTerms = extractSearchTerms description
      in thenE (forEachE (\<lambda>matches (id, asset).
                   thenE (calculateMatchScore_checked asset searchTerms)
                     (\<lambda>score. Inr (if score > 0
                                   then matches @ [\<lparr>raw_match_id = id, raw_match_name = raw_name asset,
                                                    raw_match_type = raw_type asset, raw_score = score,
                                                    raw_match_gender = raw_gender asset\<rparr>]
                                   else matches))) [] catalog)
           (\<lambda>matches.
              Inr (take 10 (sortBy (\<lambda>a b. int (raw_score b) - int (raw_score a)) matches))))"

definition buildAvatarConfig_checked ::
  "(string \<times> RawAsset) list \<Rightarrow> string \<Rightarrow> error + RawAvatarConfig" where
  "buildAvatarConfig_checked catalog description =
     (let genderMatch = determineGender description
      in thenE (findAssets_checked catalog description)
           (\<lambda>found.
              thenE (forEachE (\<lambda>assetsByType asset.
                        thenE (case map_of assetsByType (raw_match_type asset) of
                                 None \<Rightarrow> Inr True
                               | Some best \<Rightarrow>
                                   thenE (callOn (map_of assetsByType (raw_match_type asset)) raw_score)
                                     (\<lambda>s. Inr (s < raw_score asset)))
                          (\<lambda>better.
                             Inr (if better
                                  then AList.update (raw_match_type asset) asset assetsByType
                                  else assetsByType))) [] found)
                (\<lambda>assetsByType.
                   let config = foldl (\<lambda>config (type, asset).
                                  case mapTypeToConfigKey type of
                                    None \<Rightarrow> config
                                  | Some configKey \<Rightarrow>
                                      AList.update configKey (raw_match_id asset) config)
                                  [] assetsByType
                   in Inr \<lparr>raw_config_gender = genderMatch,
                           raw_config_assets = map snd assetsByType,
                           raw_config = config\<rparr>)))"

definition rawAsset :: "Asset \<Rightarrow> RawAsset" where
  \<comment> \<open>an entry that has all its fields, as every entry of the sample catalog has\<close>
  "rawAsset a =
     \<lparr>raw_name = Some (asset_name a), raw_type = asset_type a,
      raw_gender = Some (asset_gender a), raw_tags = Some (asset_tags a)\<rparr>"

definition rawCatalog :: "(string \<times> Asset) list \<Rightarrow> (string \<times> RawAsset) list" where
  "rawCatalog entries = map (\<lambda>entry. (fst entry, rawAsset (snd entry))) entries"

definition rawMatch :: "AssetMatch \<Rightarrow> RawMatch" where
  "rawMatch m =
     \<lparr>raw_match_id = match_id m, raw_match_name = Some (match_name m),
      raw_match_type = match_type m, raw_score = score m,
      raw_match_gender = Some (match_gender m)\<rparr>"

definition rawConfig :: "AvatarConfig \<Rightarrow> RawAvatarConfig" where
  "rawConfig c =
     \<lparr>raw_config_gender = config_gender c, raw_config_assets = map rawMatch (config_assets c),
      raw_config = config c\<rparr>"

definition withDefaults :: "RawAsset \<Rightarrow> Asset" where
  \<comment> \<open>the entry with the values that the guards of the scorer put for the missing fields: the
      empty name, no tag, and no gender (with which the gender check adds nothing)\<close>
  "withDefaults a =
     \<lparr>asset_id = [], asset_name = (case raw_name a of None \<Rightarrow> [] | Some n \<Rightarrow> n),
      asset_type = raw_type a,
      asset_gender = (case raw_gender a of None \<Rightarrow> [] | Some g \<Rightarrow> g),
      asset_tags = (case raw_tags a of None \<Rightarrow> [] | Some ts \<Rightarrow> ts)\<rparr>"

section \<open>Notions used to state the properties\<close>

definition matchOf :: "SearchTerms \<Rightarrow> string \<times> Asset \<Rightarrow> AssetMatch" where
  \<comment> \<open>the record \<open>findAssets\<close> pushes for a catalog entry, whatever its score\<close>
  "matchOf searchTerms entry =
     \<lparr>match_id = fst entry, match_name = asset_name (snd entry),
      match_type = asset_type (snd entry),
      score = calculateMatchScore (snd entry) searchTerms,
      match_gender = asset_gender (snd entry)\<rparr>"

definition scored :: "AssetMapper \<Rightarrow> string \<Rightarrow> AssetMatch list" where
  \<comment> \<open>every catalog entry with its score, in the order of the catalog\<close>
  "scored this description = map (matchOf (extractSearchTerms description)) (assets this)"

definition occursAsWord :: "string \<Rightarrow> string \<Rightarrow> bool" where
  \<comment> \<open>\<open>w\<close> occurs in the description, in any mix of cases, with no word character right
      before it and none right after it\<close>
  "occursAsWord w description =
     (\<exists>pre mid post.
        description = pre @ mid @ post \<and> toLowerCase mid = toLowerCase w \<and>
        (pre = [] \<or> \<not> isWordChar (last pre)) \<and> (post = [] \<or> \<not> isWordChar (hd post)))"

definition typeScore :: "Asset \<Rightarrow> SearchTerms \<Rightarrow> nat" where
  \<comment> \<open>what the pass over \<open>searchTerms.types\<close> adds\<close>
  "typeScore asset searchTerms =
     foldl (\<lambda>score type.
              if includes_str (toLowerCase (asset_name asset)) type \<or> asset_type asset = type \<or>
                 type \<in> set (asset_tags asset)
              then score + 10 else score) 0 (types searchTerms)"

definition colorScore :: "Asset \<Rightarrow> SearchTerms \<Rightarrow> nat" where
  \<comment> \<open>what the pass over \<open>searchTerms.colors\<close> adds\<close>
  "colorScore asset searchTerms =
     foldl (\<lambda>score color.
              if includes_str (toLowerCase (asset_name asset)) color \<or> color \<in> set (asset_tags asset)
              then score + 5 else score) 0 (colors searchTerms)"

definition materialScore :: "Asset \<Rightarrow> SearchTerms \<Rightarrow> nat" where
  \<comment> \<open>what the pass over \<open>searchTerms.materials\<close> adds\<close>
  "materialScore asset searchTerms =
     foldl (\<lambda>score material.
              if includes_str (toLowerCase (asset_name asset)) material \<or>
                 material \<in> set (asset_tags asset)
              then score + 5 else score) 0 (materials searchTerms)"

definition styleScore :: "Asset \<Rightarrow> SearchTerms \<Rightarrow> nat" where
  \<comment> \<open>what the pass over \<open>searchTerms.styles\<close> adds\<close>
  "styleScore asset searchTerms =
     foldl (\<lambda>score style.
              if includes_str (toLowerCase (asset_name asset)) style \<or> style \<in> set (asset_tags asset)
              then score + 3 else score) 0 (styles searchTerms)"

definition genderScore :: "Asset \<Rightarrow> SearchTerms \<Rightarrow> nat" where
  \<comment> \<open>what the gender check adds\<close>
  "genderScore asset searchTerms =
     (if length (gender searchTerms) > 0 \<and> genderMatch asset searchTerms then 2 else 0)"

definition keywordScore :: "Asset \<Rightarrow> SearchTerms \<Rightarrow> nat" where
  \<comment> \<open>what the pass over \<open>searchTerms.keywords\<close> adds\<close>
  "keywordScore asset searchTerms =
     foldl (\<lambda>score keyword.
              if length keyword > 3
              then (if includes_str (toLowerCase (asset_name asset)) keyword \<or>
                       list_ex (\<lambda>tag. includes_str tag keyword) (asset_tags asset)
                    then score + 1 else score)
              else score) 0 (keywords' searchTerms)"

definition sharesNoToken :: "Asset \<Rightarrow> string \<Rightarrow> bool" where
  \<comment> \<open>no token of the description occurs in the name of the asset or in one of its tags, and
      none is its type; the empty token, which a description that starts or ends with
      whitespace has, occurs in every string and is left out\<close>
  "sharesNoToken asset description =
     list_all (\<lambda>w. w = [] \<or>
                 (\<not> includes_str (toLowerCase (asset_name asset)) w \<and>
                  \<not> list_ex (\<lambda>tag. includes_str tag w) (asset_tags asset) \<and>
                  \<not> asset_type asset = w))
       (keywords' (extractSearchTerms description))"

definition firstBest :: "AssetMatch list \<Rightarrow> AssetMatch \<Rightarrow> bool" where
  \<comment> \<open>\<open>m\<close> is in the list, every match of its type before it has a smaller score, and no match
      of its type after it has a greater one\<close>
  "firstBest found m =
     (\<exists>pre post. found = pre @ m # post \<and>
        (\<forall>y \<in> set pre. match_type y = match_type m \<longrightarrow> score y < score m) \<and>
        (\<forall>y \<in> set post. match_type y = match_type m \<longrightarrow> score y \<le> score m))"

definition atBoundary :: "matchState \<Rightarrow> bool" where
  \<comment> \<open>the word boundary matches in this state: exactly one of the code units before and
      after the position is a word character\<close>
  "atBoundary st =
     ((case fst st of None \<Rightarrow> False | Some p \<Rightarrow> isWordChar p) \<noteq>
      (case snd st of [] \<Rightarrow> False | c # cs \<Rightarrow> isWordChar c))"

section \<open>The result of findAssets\<close>

lemma foldl_push:
  "foldl (\<lambda>matches (id, asset).
      if 0 < calculateMatchScore asset st
      then matches @ [\<lparr>match_id = id, match_name = asset_name asset,
                       match_type = asset_type asset, score = calculateMatchScore asset st,
                       match_gender = asset_gender asset\<rparr>]
      else matches) acc xs
   = acc @ filter (\<lambda>m. 0 < score m) (map (matchOf st) xs)"
  by (induction xs arbitrary: acc) (auto simp: matchOf_def)

lemma findAssets_eq:
  "findAssets this description =
     take 10 (sortBy (\<lambda>a b. int (score b) - int (score a))
       (filter (\<lambda>m. 0 < score m) (scored this description)))"
  by (simp add: findAssets_def scored_def foldl_push Let_def)

lemma set_insertBy: "set (insertBy cmp x ys) = insert x (set ys)"
  by (induction ys) auto

lemma set_sortBy: "set (sortBy cmp xs) = set xs"
  by (induction xs) (auto simp: sortBy_def set_insertBy)

lemma sorted_insertBy:
  "sorted_wrt (\<lambda>a b. score b \<le> score a) ys \<Longrightarrow>
   sorted_wrt (\<lambda>a b. score b \<le> score a) (insertBy (\<lambda>a b. int (score b) - int (score a)) x ys)"
  by (induction ys) (auto simp: set_insertBy)

lemma sorted_sortBy:
  "sorted_wrt (\<lambda>a b. score b \<le> score a) (sortBy (\<lambda>a b. int (score b) - int (score a)) xs)"
  by (induction xs) (auto simp: sortBy_def sorted_insertBy)

lemma filter_insertBy:
  "filter (\<lambda>m. score m = k) (insertBy (\<lambda>a b. int (score b) - int (score a)) x ys) =
   filter (\<lambda>m. score m = k) (x # ys)"
  by (induction ys) auto

lemma filter_sortBy:
  "filter (\<lambda>m. score m = k) (sortBy (\<lambda>a b. int (score b) - int (score a)) xs) =
   filter (\<lambda>m. score m = k) xs"
  by (induction xs) (auto simp: sortBy_def filter_insertBy)

lemma findAssets_sorted:
  "sorted_wrt (\<lambda>a b. score b \<le> score a) (findAssets this description)"
  unfolding findAssets_eq by (intro sorted_wrt_take sorted_sortBy)

lemma findAssets_subset:
  "set (findAssets this description) \<subseteq>
     {m \<in> set (scored this description). 0 < score m}"
proof
  fix m assume "m \<in> set (findAssets this description)"
  then have "m \<in> set (sortBy (\<lambda>a b. int (score b) - int (score a))
     (filter (\<lambda>m. 0 < score m) (scored this description)))"
    unfolding findAssets_eq by (rule in_set_takeD)
  then show "m \<in> {m \<in> set (scored this description). 0 < score m}"
    by (simp add: set_sortBy)
qed

section \<open>The parts of the score\<close>

lemma foldl_add_if:
  "foldl (\<lambda>s x. if P x then s + k else s) a xs = a + k * length (filter P xs)"
  by (induction xs arbitrary: a) auto

lemma foldl_add_if2:
  "foldl (\<lambda>s x. if Q x then (if P x then s + k else s) else s) a xs =
   a + k * length (filter (\<lambda>x. Q x \<and> P x) xs)"
  by (induction xs arbitrary: a) auto

lemma calculateMatchScore_parts:
  "calculateMatchScore asset st =
     typeScore asset st + colorScore asset st + materialScore asset st + styleScore asset st +
     genderScore asset st + keywordScore asset st"
  by (simp add: calculateMatchScore_def typeScore_def colorScore_def materialScore_def
      styleScore_def genderScore_def keywordScore_def Let_def foldl_add_if foldl_add_if2)

lemma keywordScore_count:
  "keywordScore asset st =
     length (filter (\<lambda>k. 3 < length k \<and>
                (includes_str (toLowerCase (asset_name asset)) k \<or>
                 list_ex (\<lambda>tag. includes_str tag k) (asset_tags asset))) (keywords' st))"
  by (simp add: keywordScore_def foldl_add_if2)

lemma concat_splitFrom:
  "concat (splitFrom cur s) = cur @ filter (\<lambda>c. \<not> isWhitespace c) s"
proof (induction cur s rule: splitFrom.induct)
  case (1 cur)
  then show ?case by simp
next
  case (2 cur c cs)
  have "filter (\<lambda>c. \<not> isWhitespace c) (dropWhile isWhitespace cs) =
        filter (\<lambda>c. \<not> isWhitespace c) cs"
    by (induction cs) auto
  with 2 show ?case by simp
qed

lemma gender_in_keywords:
  "gender (extractSearchTerms description) =
     filter (\<lambda>w. w \<in> set genderTerms) (keywords' (extractSearchTerms description))"
  by (simp add: extractSearchTerms_def Let_def)

lemma startsWith_self: "startsWith s s"
  by (induction s) auto

lemma includes_str_self: "includes_str s s"
  by (cases s) (auto simp: startsWith_self)

lemma sharesNoToken_zero:
  assumes "sharesNoToken asset description"
  shows "typeScore asset (extractSearchTerms description) = 0"
    and "colorScore asset (extractSearchTerms description) = 0"
    and "materialScore asset (extractSearchTerms description) = 0"
    and "styleScore asset (extractSearchTerms description) = 0"
    and "keywordScore asset (extractSearchTerms description) = 0"
proof -
  let ?ws = "split_ws (toLowerCase description)"
  let ?n = "toLowerCase (asset_name asset)"
  have k: "keywords' (extractSearchTerms description) = ?ws"
    by (simp add: extractSearchTerms_def Let_def)
  have no: "\<not> includes_str ?n w \<and> \<not> list_ex (\<lambda>tag. includes_str tag w) (asset_tags asset) \<and>
      asset_type asset \<noteq> w" if "w \<in> set ?ws" "w \<noteq> []" for w
    using assms that unfolding sharesNoToken_def k list_all_iff by blast
  have notag: "w \<notin> set (asset_tags asset)" if "w \<in> set ?ws" "w \<noteq> []" for w
    using no [OF that] includes_str_self unfolding list_ex_iff by blast
  have hit: "\<not> (includes_str ?n w \<or> asset_type asset = w \<or> w \<in> set (asset_tags asset))"
    if "w \<in> set ?ws" "w \<noteq> []" for w
    using no [OF that] notag [OF that] by blast
  have ne: "[] \<notin> set colorTerms" "[] \<notin> set materialTerms" "[] \<notin> set clothingTypes"
    "[] \<notin> set styleTerms"
    by (simp_all add: colorTerms_def materialTerms_def clothingTypes_def styleTerms_def)
  have "\<forall>w \<in> set (types (extractSearchTerms description)).
      \<not> (includes_str ?n w \<or> asset_type asset = w \<or> w \<in> set (asset_tags asset))"
  proof
    fix w assume "w \<in> set (types (extractSearchTerms description))"
    then have "w \<in> set ?ws" "w \<in> set clothingTypes"
      by (simp_all add: extractSearchTerms_def Let_def)
    with ne have "w \<in> set ?ws" "w \<noteq> []" by auto
    then show "\<not> (includes_str ?n w \<or> asset_type asset = w \<or> w \<in> set (asset_tags asset))"
      by (rule hit)
  qed
  then show "typeScore asset (extractSearchTerms description) = 0"
    by (simp add: typeScore_def foldl_add_if filter_empty_conv)
  have "\<forall>w \<in> set (colors (extractSearchTerms description)).
      \<not> (includes_str ?n w \<or> w \<in> set (asset_tags asset))"
  proof
    fix w assume "w \<in> set (colors (extractSearchTerms description))"
    then have "w \<in> set ?ws" "w \<in> set colorTerms"
      by (simp_all add: extractSearchTerms_def Let_def)
    with ne have "w \<in> set ?ws" "w \<noteq> []" by auto
    then show "\<not> (includes_str ?n w \<or> w \<in> set (asset_tags asset))"
      using hit by blast
  qed
  then show "colorScore asset (extractSearchTerms description) = 0"
    by (simp add: colorScore_def foldl_add_if filter_empty_conv)
  have "\<forall>w \<in> set (materials (extractSearchTerms description)).
      \<not> (includes_str ?n w \<or> w \<in> set (asset_tags asset))"
  proof
    fix w assume "w \<in> set (materials (extractSearchTerms description))"
    then have "w \<in> set ?ws" "w \<in> set materialTerms"
      by (simp_all add: extractSearchTerms_def Let_def)
    with ne have "w \<in> set ?ws" "w \<noteq> []" by auto
    then show "\<not> (includes_str ?n w \<or> w \<in> set (asset_tags asset))"
      using hit by blast
  qed
  then show "materialScore asset (extractSearchTerms description) = 0"
    by (simp add: materialScore_def foldl_add_if filter_empty_conv)
  have "\<forall>w \<in> set (styles (extractSearchTerms description)).
      \<not> (includes_str ?n w \<or> w \<in> set (asset_tags asset))"
  proof
    fix w assume "w \<in> set (styles (extractSearchTerms description))"
    then have "w \<in> set ?ws" "w \<in> set styleTerms"
      by (simp_all add: extractSearchTerms_def Let_def)
    with ne have "w \<in> set ?ws" "w \<noteq> []" by auto
    then show "\<not> (includes_str ?n w \<or> w \<in> set (asset_tags asset))"
      using hit by blast
  qed
  then show "styleScore asset (extractSearchTerms description) = 0"
    by (simp add: styleScore_def foldl_add_if filter_empty_conv)
  have "\<forall>w \<in> set ?ws. \<not> (3 < length w \<and>
      (includes_str ?n w \<or> list_ex (\<lambda>tag. includes_str tag w) (asset_tags asset)))"
  proof
    fix w assume w: "w \<in> set ?ws"
    show "\<not> (3 < length w \<and>
      (includes_str ?n w \<or> list_ex (\<lambda>tag. includes_str tag w) (asset_tags asset)))"
    proof (cases "w = []")
      case True
      then show ?thesis by simp
    next
      case False
      with w no show ?thesis by blast
    qed
  qed
  then show "keywordScore asset (extractSearchTerms description) = 0"
    by (simp add: keywordScore_count k filter_empty_conv)
qed

lemma excluded_when_zero:
  assumes z: "calculateMatchScore asset (extractSearchTerms description) = 0"
    and d: "distinct (map fst (assets this))"
    and e: "(key, asset) \<in> set (assets this)"
  shows "key \<notin> match_id ` set (findAssets this description)"
proof
  assume "key \<in> match_id ` set (findAssets this description)"
  then obtain m where m: "m \<in> set (findAssets this description)" "match_id m = key" by auto
  with findAssets_subset [of this description]
  have s: "m \<in> set (scored this description)" and p: "0 < score m" by auto
  from s obtain entry where en: "entry \<in> set (assets this)"
      "m = matchOf (extractSearchTerms description) entry"
    by (auto simp: scored_def)
  with m have "fst entry = key" by (simp add: matchOf_def)
  with en(1) e d have "snd entry = asset"
    by (metis eq_key_imp_eq_value prod.collapse)
  with en(2) z p show False by (simp add: matchOf_def)
qed

section \<open>Grouping by type\<close>

lemma groupByType_Nil: "groupByType [] = []"
  by (simp add: groupByType_def)

lemma groupByType_snoc:
  "groupByType (xs @ [x]) =
     (if (case map_of (groupByType xs) (match_type x) of
            None \<Rightarrow> True
          | Some best \<Rightarrow> score best < score x)
      then AList.update (match_type x) x (groupByType xs)
      else groupByType xs)"
  by (simp add: groupByType_def)

lemma firstBest_snoc_old:
  assumes "firstBest xs m" "match_type x \<noteq> match_type m \<or> score x \<le> score m"
  shows "firstBest (xs @ [x]) m"
proof -
  from assms(1) obtain pre post where p: "xs = pre @ m # post"
    "\<forall>y \<in> set pre. match_type y = match_type m \<longrightarrow> score y < score m"
    "\<forall>y \<in> set post. match_type y = match_type m \<longrightarrow> score y \<le> score m"
    unfolding firstBest_def by blast
  have "xs @ [x] = pre @ m # (post @ [x])" using p(1) by simp
  moreover have "\<forall>y \<in> set (post @ [x]). match_type y = match_type m \<longrightarrow> score y \<le> score m"
    using p(3) assms(2) by auto
  ultimately show ?thesis unfolding firstBest_def using p(2) by blast
qed

lemma firstBest_snoc_new:
  assumes "\<forall>y \<in> set xs. match_type y = match_type x \<longrightarrow> score y < score x"
  shows "firstBest (xs @ [x]) x"
  unfolding firstBest_def using assms by (intro exI [of _ xs] exI [of _ "[]"]) simp

lemma firstBest_max:
  assumes "firstBest xs m" "y \<in> set xs" "match_type y = match_type m"
  shows "score y \<le> score m"
  using assms unfolding firstBest_def by (auto simp: less_imp_le)

lemma groupByType_inv:
  "distinct (map fst (groupByType xs)) \<and>
   (\<forall>t. (map_of (groupByType xs) t = None) = (t \<notin> match_type ` set xs)) \<and>
   (\<forall>t m. map_of (groupByType xs) t = Some m \<longrightarrow> match_type m = t \<and> firstBest xs m)"
proof (induction xs rule: rev_induct)
  case Nil
  then show ?case by (simp add: groupByType_Nil)
next
  case (snoc x xs)
  let ?abt = "groupByType xs"
  let ?t = "match_type x"
  from snoc have d: "distinct (map fst ?abt)"
    and ty: "\<And>t. (map_of ?abt t = None) = (t \<notin> match_type ` set xs)"
    and fb: "\<And>t m. map_of ?abt t = Some m \<Longrightarrow> match_type m = t \<and> firstBest xs m"
    by auto
  show ?case
  proof (cases "map_of ?abt ?t")
    case None
    then have "?t \<notin> match_type ` set xs"
      using ty [of ?t] by simp
    then have new: "\<forall>y \<in> set xs. match_type y \<noteq> ?t"
      by (metis imageI)
    have g: "groupByType (xs @ [x]) = AList.update ?t x ?abt"
      using None by (simp add: groupByType_snoc)
    have "firstBest (xs @ [x]) x"
      using new by (intro firstBest_snoc_new) auto
    moreover have "firstBest (xs @ [x]) m" if "map_of ?abt t = Some m" for t m
    proof -
      from fb [OF that] have "match_type m = t" "firstBest xs m" by auto
      moreover from that None have "t \<noteq> ?t" by auto
      ultimately show ?thesis by (intro firstBest_snoc_old) auto
    qed
    ultimately show ?thesis
      unfolding g using d ty fb
      by (auto simp: AList.distinct_update update_conv')
  next
    case (Some best)
    from fb [OF Some] have b: "match_type best = ?t" "firstBest xs best" by auto
    show ?thesis
    proof (cases "score best < score x")
      case True
      have g: "groupByType (xs @ [x]) = AList.update ?t x ?abt"
        using Some True by (simp add: groupByType_snoc)
      have "\<forall>y \<in> set xs. match_type y = ?t \<longrightarrow> score y < score x"
        using firstBest_max [OF b(2)] b(1) True by fastforce
      then have "firstBest (xs @ [x]) x" by (rule firstBest_snoc_new)
      moreover have "firstBest (xs @ [x]) m" if "map_of ?abt t = Some m" "t \<noteq> ?t" for t m
      proof -
        from fb [OF that(1)] have "match_type m = t" "firstBest xs m" by auto
        with that(2) show ?thesis by (intro firstBest_snoc_old) auto
      qed
      moreover have "(map_of ?abt t = None) = (t \<notin> match_type ` set xs)" if "t \<noteq> ?t" for t
        by (rule ty)
      ultimately show ?thesis
        unfolding g using d fb
        by (auto simp: AList.distinct_update update_conv')
    next
      case False
      have g: "groupByType (xs @ [x]) = ?abt"
        using Some False by (simp add: groupByType_snoc)
      have "firstBest (xs @ [x]) m" if "map_of ?abt t = Some m" for t m
      proof (cases "t = ?t")
        case True
        with that Some have "m = best" by simp
        with b False show ?thesis by (intro firstBest_snoc_old) auto
      next
        case False
        from fb [OF that] have "match_type m = t" "firstBest xs m" by auto
        with False show ?thesis by (intro firstBest_snoc_old) auto
      qed
      moreover have "(map_of ?abt t = None) = (t \<notin> match_type ` set (xs @ [x]))" for t
        using ty [of t] Some by (cases "t = ?t") auto
      ultimately show ?thesis
        unfolding g using d fb by auto
    qed
  qed
qed

lemma groupByType_entries:
  assumes "(t, m) \<in> set (groupByType xs)"
  shows "match_type m = t \<and> firstBest xs m"
proof -
  from groupByType_inv [of xs] have "distinct (map fst (groupByType xs))" by blast
  with assms have "map_of (groupByType xs) t = Some m" by simp
  with groupByType_inv [of xs] show ?thesis by blast
qed

lemma groupByType_types: "map (match_type \<circ> snd) (groupByType xs) = map fst (groupByType xs)"
  using groupByType_entries [of _ _ xs] by (intro map_cong) auto

lemma groupByType_keys: "fst ` set (groupByType xs) = match_type ` set xs"
proof -
  have "fst ` set (groupByType xs) = dom (map_of (groupByType xs))"
    by (simp add: dom_map_of_conv_image_fst)
  also have "\<dots> = match_type ` set xs"
    using groupByType_inv [of xs] by (auto simp: dom_def)
  finally show ?thesis .
qed

section \<open>Upper and lower case\<close>

lemma paired_tables:
  assumes len: "length U = length L" and dist: "distinct (U @ L)"
  shows "(case map_of (zip L U) (case map_of (zip U L) c of None \<Rightarrow> c | Some l \<Rightarrow> l) of
            None \<Rightarrow> (case map_of (zip U L) c of None \<Rightarrow> c | Some l \<Rightarrow> l)
          | Some u \<Rightarrow> u) =
         (case map_of (zip L U) c of None \<Rightarrow> c | Some u \<Rightarrow> u)"
proof (cases "map_of (zip U L) c")
  case None
  then show ?thesis by (simp split: option.split)
next
  case (Some l)
  then have in1: "(c, l) \<in> set (zip U L)" by (rule map_of_SomeD)
  then have cU: "c \<in> set U" and lL: "l \<in> set L" by (auto dest: set_zip_leftD set_zip_rightD)
  from in1 have "(l, c) \<in> set (zip L U)" by (auto simp: in_set_zip)
  moreover from dist have "distinct (map fst (zip L U))" using len by simp
  ultimately have 1: "map_of (zip L U) l = Some c" by simp
  from cU dist have "c \<notin> set L" by auto
  then have "c \<notin> fst ` set (zip L U)" by (auto dest: set_zip_leftD)
  then have 2: "map_of (zip L U) c = None" by (simp add: map_of_eq_None_iff)
  show ?thesis by (simp add: Some 1 2)
qed

lemma case_tables:
  "length upperCaseLetters = length lowerCaseLetters"
  "distinct (upperCaseLetters @ lowerCaseLetters)"
  "distinct (lowerCaseLetters @ upperCaseLetters)"
  by (simp_all add: upperCaseLetters_def lowerCaseLetters_def)

lemma canonicalize_toLowerChar: "canonicalize (toLowerChar c) = canonicalize c"
  unfolding canonicalize_def toLowerChar_def
  using paired_tables [OF case_tables(1) case_tables(2)] .

lemma toLowerChar_canonicalize: "toLowerChar (canonicalize c) = toLowerChar c"
  unfolding canonicalize_def toLowerChar_def
  using paired_tables [OF case_tables(1) [symmetric] case_tables(3)] .

lemma canonicalize_eq_iff:
  "(canonicalize d = canonicalize c) = (toLowerChar d = toLowerChar c)"
  by (metis canonicalize_toLowerChar toLowerChar_canonicalize)

lemma wordChar_pairs:
  "list_all (\<lambda>(u, l). isWordChar u = isWordChar l) (zip upperCaseLetters lowerCaseLetters)"
  by code_simp

lemma isWordChar_toLowerChar: "isWordChar (toLowerChar c) = isWordChar c"
proof (cases "map_of (zip upperCaseLetters lowerCaseLetters) c")
  case None
  then show ?thesis by (simp add: toLowerChar_def)
next
  case (Some l)
  then have "(c, l) \<in> set (zip upperCaseLetters lowerCaseLetters)" by (rule map_of_SomeD)
  with wordChar_pairs have "isWordChar c = isWordChar l"
    unfolding list_all_iff by blast
  with Some show ?thesis by (simp add: toLowerChar_def)
qed


section \<open>The patterns match whole words\<close>

lemma startsWithCI_iff:
  "startsWithCI s w = (\<exists>mid post. s = mid @ post \<and> toLowerCase mid = toLowerCase w)"
proof (induction w arbitrary: s)
  case Nil
  then show ?case by (simp add: toLowerCase_def)
next
  case (Cons c cs)
  show ?case
  proof (cases s)
    case Nil
    then show ?thesis by (simp add: toLowerCase_def)
  next
    case (Cons d ds)
    have "startsWithCI s (c # cs) =
        (toLowerChar d = toLowerChar c \<and>
         (\<exists>mid post. ds = mid @ post \<and> toLowerCase mid = toLowerCase cs))"
      using Cons Cons.IH [of ds] by (simp add: canonicalize_eq_iff)
    also have "\<dots> = (\<exists>mid post. s = mid @ post \<and> toLowerCase mid = toLowerCase (c # cs))"
    proof
      assume "toLowerChar d = toLowerChar c \<and>
         (\<exists>mid post. ds = mid @ post \<and> toLowerCase mid = toLowerCase cs)"
      then obtain mid post where "ds = mid @ post" "toLowerCase mid = toLowerCase cs"
        "toLowerChar d = toLowerChar c" by blast
      then have "s = (d # mid) @ post \<and> toLowerCase (d # mid) = toLowerCase (c # cs)"
        using Cons by (simp add: toLowerCase_def)
      then show "\<exists>mid post. s = mid @ post \<and> toLowerCase mid = toLowerCase (c # cs)"
        by blast
    next
      assume "\<exists>mid post. s = mid @ post \<and> toLowerCase mid = toLowerCase (c # cs)"
      then obtain mid post where m: "s = mid @ post" "toLowerCase mid = toLowerCase (c # cs)"
        by blast
      from m(2) obtain e mid' where e: "mid = e # mid'"
        by (cases mid) (auto simp: toLowerCase_def)
      with m Cons have "d = e" "ds = mid' @ post" "toLowerChar e = toLowerChar c"
        "toLowerCase mid' = toLowerCase cs"
        by (auto simp: toLowerCase_def)
      then show "toLowerChar d = toLowerChar c \<and>
         (\<exists>mid post. ds = mid @ post \<and> toLowerCase mid = toLowerCase cs)"
        by blast
    qed
    finally show ?thesis .
  qed
qed

lemma matchEnds_WordBoundary: "matchEnds WordBoundary st = (if atBoundary st then [st] else [])"
  by (auto simp: atBoundary_def Let_def)

lemma matchEnds_wholeWord:
  "(matchEnds (Seq WordBoundary (Seq A WordBoundary)) st \<noteq> []) =
     (atBoundary st \<and> (\<exists>st' \<in> set (matchEnds A st). atBoundary st'))"
proof -
  have "matchEnds (Seq WordBoundary (Seq A WordBoundary)) st =
      (if atBoundary st
       then concat (map (\<lambda>s. if atBoundary s then [s] else []) (matchEnds A st))
       else [])"
  proof -
    have "matchEnds WordBoundary = (\<lambda>s. if atBoundary s then [s] else [])"
      by (rule ext) (rule matchEnds_WordBoundary)
    then show ?thesis by (simp del: matchEnds.simps(4))
  qed
  then show ?thesis by auto
qed

lemma matchEnds_alt4:
  "set (matchEnds (Alt (Str a) (Alt (Str b) (Alt (Str c) (Str d)))) st) =
     (\<lambda>w. advance (length w) st) ` {w \<in> set [a, b, c, d]. startsWithCI (snd st) w}"
  by auto

lemma searchFrom_iff:
  "searchFrom r prev rest =
     (\<exists>pre suf. rest = pre @ suf \<and>
        matchEnds r (if pre = [] then prev else Some (last pre), suf) \<noteq> [])"
proof (induction rest arbitrary: prev)
  case Nil
  then show ?case by simp
next
  case (Cons c cs)
  have "searchFrom r prev (c # cs) =
      (matchEnds r (prev, c # cs) \<noteq> [] \<or>
       (\<exists>pre suf. cs = pre @ suf \<and>
          matchEnds r (if pre = [] then Some c else Some (last pre), suf) \<noteq> []))"
    using Cons.IH [of "Some c"] by simp
  also have "\<dots> =
      (\<exists>pre suf. c # cs = pre @ suf \<and>
        matchEnds r (if pre = [] then prev else Some (last pre), suf) \<noteq> [])"
  proof
    assume "matchEnds r (prev, c # cs) \<noteq> [] \<or>
       (\<exists>pre suf. cs = pre @ suf \<and>
          matchEnds r (if pre = [] then Some c else Some (last pre), suf) \<noteq> [])"
    then show "\<exists>pre suf. c # cs = pre @ suf \<and>
        matchEnds r (if pre = [] then prev else Some (last pre), suf) \<noteq> []"
    proof
      assume "matchEnds r (prev, c # cs) \<noteq> []"
      then show ?thesis by (intro exI [of _ "[]"] exI [of _ "c # cs"]) simp
    next
      assume "\<exists>pre suf. cs = pre @ suf \<and>
          matchEnds r (if pre = [] then Some c else Some (last pre), suf) \<noteq> []"
      then obtain pre suf where "cs = pre @ suf"
        "matchEnds r (if pre = [] then Some c else Some (last pre), suf) \<noteq> []" by blast
      then show ?thesis by (intro exI [of _ "c # pre"] exI [of _ suf]) auto
    qed
  next
    assume "\<exists>pre suf. c # cs = pre @ suf \<and>
        matchEnds r (if pre = [] then prev else Some (last pre), suf) \<noteq> []"
    then obtain pre suf where p: "c # cs = pre @ suf"
      "matchEnds r (if pre = [] then prev else Some (last pre), suf) \<noteq> []" by blast
    show "matchEnds r (prev, c # cs) \<noteq> [] \<or>
       (\<exists>pre suf. cs = pre @ suf \<and>
          matchEnds r (if pre = [] then Some c else Some (last pre), suf) \<noteq> [])"
    proof (cases pre)
      case Nil
      with p show ?thesis by simp
    next
      case (Cons e pre')
      with p have "cs = pre' @ suf" "e = c" by auto
      moreover from p(2) Cons \<open>e = c\<close>
      have "matchEnds r (if pre' = [] then Some c else Some (last pre'), suf) \<noteq> []"
        by (cases pre') auto
      ultimately show ?thesis by blast
    qed
  qed
  finally show ?case .
qed

lemma wholeWord_pattern:
  assumes A: "\<And>st. set (matchEnds A st) =
      (\<lambda>w. advance (length w) st) ` {w \<in> set ws. startsWithCI (snd st) w}"
    and ws: "\<And>w. w \<in> set ws \<Longrightarrow> w \<noteq> [] \<and> isWordChar (hd w) \<and> isWordChar (last w)"
  shows "regexMatches (Seq WordBoundary (Seq A WordBoundary)) description =
     (\<exists>w \<in> set ws. occursAsWord w description)"
proof -
  have key: "(atBoundary (prev, mid @ post) \<and> atBoundary (advance (length w) (prev, mid @ post))) =
      ((case prev of None \<Rightarrow> True | Some p \<Rightarrow> \<not> isWordChar p) \<and>
       (post = [] \<or> \<not> isWordChar (hd post)))"
    if w: "w \<in> set ws" and m: "toLowerCase mid = toLowerCase w" for prev mid post w
  proof -
    from ws [OF w] have w0: "w \<noteq> []" "isWordChar (hd w)" "isWordChar (last w)" by auto
    from m have len: "length mid = length w"
      unfolding toLowerCase_def by (rule map_eq_imp_length_eq)
    with w0 have mid0: "mid \<noteq> []" by auto
    from m w0 mid0 have "toLowerChar (hd mid) = toLowerChar (hd w)"
      unfolding toLowerCase_def by (metis hd_map)
    then have h: "isWordChar (hd mid)"
      using w0 by (metis isWordChar_toLowerChar)
    from m w0 mid0 have "toLowerChar (last mid) = toLowerChar (last w)"
      unfolding toLowerCase_def by (metis last_map)
    then have l: "isWordChar (last mid)"
      using w0 by (metis isWordChar_toLowerChar)
    have adv: "advance (length w) (prev, mid @ post) = (Some (last mid), post)"
      using len mid0 w0 by (simp add: advance_def nth_append last_conv_nth)
    have 1: "atBoundary (prev, mid @ post) = (case prev of None \<Rightarrow> True | Some p \<Rightarrow> \<not> isWordChar p)"
      using h mid0 by (cases mid; cases prev) (auto simp: atBoundary_def)
    have 2: "atBoundary (Some (last mid), post) = (post = [] \<or> \<not> isWordChar (hd post))"
      using l by (cases post) (auto simp: atBoundary_def)
    show ?thesis unfolding adv 1 2 ..
  qed
  have "regexMatches (Seq WordBoundary (Seq A WordBoundary)) description =
      (\<exists>pre suf. description = pre @ suf \<and>
         atBoundary (if pre = [] then None else Some (last pre), suf) \<and>
         (\<exists>w \<in> set ws. startsWithCI suf w \<and>
            atBoundary (advance (length w) (if pre = [] then None else Some (last pre), suf))))"
    unfolding regexMatches_def searchFrom_iff matchEnds_wholeWord A by auto
  also have "\<dots> = (\<exists>w \<in> set ws. occursAsWord w description)"
  proof
    assume "\<exists>pre suf. description = pre @ suf \<and>
         atBoundary (if pre = [] then None else Some (last pre), suf) \<and>
         (\<exists>w \<in> set ws. startsWithCI suf w \<and>
            atBoundary (advance (length w) (if pre = [] then None else Some (last pre), suf)))"
    then obtain pre suf w where d: "description = pre @ suf" and w: "w \<in> set ws"
      and b: "atBoundary (if pre = [] then None else Some (last pre), suf) \<and>
        atBoundary (advance (length w) (if pre = [] then None else Some (last pre), suf))"
      and s: "startsWithCI suf w" by blast
    from s obtain mid post where m: "suf = mid @ post" "toLowerCase mid = toLowerCase w"
      unfolding startsWithCI_iff by blast
    from b key [OF w m(2)] m(1)
    have "(pre = [] \<or> \<not> isWordChar (last pre)) \<and> (post = [] \<or> \<not> isWordChar (hd post))"
      by (cases "pre = []") auto
    with d m have "occursAsWord w description" unfolding occursAsWord_def by blast
    with w show "\<exists>w \<in> set ws. occursAsWord w description" by blast
  next
    assume "\<exists>w \<in> set ws. occursAsWord w description"
    then obtain w pre mid post where w: "w \<in> set ws" and d: "description = pre @ mid @ post"
      and m: "toLowerCase mid = toLowerCase w"
      and b: "pre = [] \<or> \<not> isWordChar (last pre)" "post = [] \<or> \<not> isWordChar (hd post)"
      unfolding occursAsWord_def by blast
    have s: "startsWithCI (mid @ post) w" unfolding startsWithCI_iff using m by blast
    from b have "atBoundary (if pre = [] then None else Some (last pre), mid @ post) \<and>
        atBoundary (advance (length w) (if pre = [] then None else Some (last pre), mid @ post))"
      unfolding key [OF w m] by (cases "pre = []") auto
    with d w s show "\<exists>pre suf. description = pre @ suf \<and>
         atBoundary (if pre = [] then None else Some (last pre), suf) \<and>
         (\<exists>w \<in> set ws. startsWithCI suf w \<and>
            atBoundary (advance (length w) (if pre = [] then None else Some (last pre), suf)))"
      by blast
  qed
  finally show ?thesis .
qed

lemma malePattern_words:
  "regexMatches malePattern description =
     (\<exists>w \<in> set [''man'', ''male'', ''boy'', ''gentleman'']. occursAsWord w description)"
  unfolding malePattern_def
  by (rule wholeWord_pattern, rule matchEnds_alt4) (auto simp: isWordChar_def)

lemma femalePattern_words:
  "regexMatches femalePattern description =
     (\<exists>w \<in> set [''woman'', ''female'', ''girl'', ''lady'']. occursAsWord w description)"
  unfolding femalePattern_def
  by (rule wholeWord_pattern, rule matchEnds_alt4) (auto simp: isWordChar_def)

section \<open>More on the result of findAssets and on the score\<close>

lemma length_insertBy: "length (insertBy cmp x ys) = Suc (length ys)"
  by (induction ys) auto

lemma length_sortBy: "length (sortBy cmp xs) = length xs"
  by (induction xs) (auto simp: sortBy_def length_insertBy)

lemma included_when_positive:
  assumes p: "0 < calculateMatchScore asset (extractSearchTerms description)"
    and e: "(key, asset) \<in> set (assets this)"
    and n: "length (assets this) \<le> 10"
  shows "matchOf (extractSearchTerms description) (key, asset) \<in> set (findAssets this description)"
proof -
  let ?all = "filter (\<lambda>m. 0 < score m) (scored this description)"
  let ?srt = "sortBy (\<lambda>a b. int (score b) - int (score a)) ?all"
  have "length ?all \<le> length (scored this description)" by (rule length_filter_le)
  also have "\<dots> \<le> 10" using n by (simp add: scored_def)
  finally have "length ?srt \<le> 10" by (simp add: length_sortBy)
  then have "findAssets this description = ?srt" by (simp add: findAssets_eq)
  moreover have "matchOf (extractSearchTerms description) (key, asset) \<in> set ?all"
  proof -
    have "matchOf (extractSearchTerms description) (key, asset)
        \<in> set (scored this description)"
      unfolding scored_def using e by simp
    moreover have "0 < score (matchOf (extractSearchTerms description) (key, asset))"
      using p by (simp add: matchOf_def)
    ultimately show ?thesis by simp
  qed
  ultimately show ?thesis by (simp add: set_sortBy)
qed

lemma calculateMatchScore_keywords:
  "calculateMatchScore asset st =
     calculateMatchScore asset (st\<lparr>keywords' := []\<rparr>) +
     length (filter (\<lambda>k. 3 < length k \<and>
                (includes_str (toLowerCase (asset_name asset)) k \<or>
                 list_ex (\<lambda>tag. includes_str tag k) (asset_tags asset))) (keywords' st))"
  by (simp add: calculateMatchScore_def Let_def foldl_add_if foldl_add_if2 genderMatch_def)

section \<open>The embedding with the failing reads agrees with the first\<close>

lemma thenE_Inr: "thenE (Inr v) k = k v"
  by (simp add: thenE_def)

lemma callOn_Some: "callOn (Some v) f = Inr (f v)"
  by (simp add: callOn_def)

lemma someE_total:
  "someE (\<lambda>g. Inr (P g)) gs = Inr (list_ex P gs)"
  by (induction gs) (auto simp: thenE_Inr)

lemma forEachE_total:
  "forEachE (\<lambda>s x. Inr (f s x)) s xs = Inr (foldl f s xs)"
  by (induction xs arbitrary: s) (auto simp: thenE_Inr)

lemma list_ex_False: "list_ex (\<lambda>x. False) xs = False"
  by (induction xs) auto

lemma calculateMatchScore_checked_eq:
  "calculateMatchScore_checked asset st = Inr (calculateMatchScore (withDefaults asset) st)"
proof -
  have n: "toLowerCase [] = []" by (simp add: toLowerCase_def)
  show ?thesis
  proof (cases "raw_gender asset")
    case None
    then show ?thesis
      by (cases "raw_name asset")
        (simp_all add: calculateMatchScore_checked_def calculateMatchScore_def withDefaults_def
          thenE_Inr callOn_Some Let_def genderMatch_def n list_ex_False cong: if_cong)
  next
    case (Some gs)
    then show ?thesis
      by (cases "raw_name asset")
        (simp_all add: calculateMatchScore_checked_def calculateMatchScore_def withDefaults_def
          thenE_Inr callOn_Some Let_def genderMatch_def n someE_total cong: if_cong)
  qed
qed

lemma forEachE_total_prod:
  "forEachE (\<lambda>s (a, b). Inr (f s a b)) s xs = Inr (foldl (\<lambda>s (a, b). f s a b) s xs)"
  by (induction xs arbitrary: s) (auto simp: thenE_Inr)

lemma findAssets_checked_total:
  "findAssets_checked catalog description =
     Inr (take 10 (sortBy (\<lambda>a b. int (raw_score b) - int (raw_score a))
       (foldl (\<lambda>matches (id, asset).
                 if 0 < calculateMatchScore (withDefaults asset) (extractSearchTerms description)
                 then matches @ [\<lparr>raw_match_id = id, raw_match_name = raw_name asset,
                        raw_match_type = raw_type asset,
                        raw_score = calculateMatchScore (withDefaults asset)
                                      (extractSearchTerms description),
                        raw_match_gender = raw_gender asset\<rparr>]
                 else matches) [] catalog)))"
  by (simp add: findAssets_checked_def calculateMatchScore_checked_eq thenE_Inr
      forEachE_total_prod Let_def)

lemma withDefaults_rawAsset:
  "calculateMatchScore (withDefaults (rawAsset a)) st = calculateMatchScore a st"
  by (simp add: calculateMatchScore_def withDefaults_def rawAsset_def genderMatch_def)

lemma raw_push:
  "foldl (\<lambda>matches (id, asset).
            if 0 < calculateMatchScore (withDefaults asset) st
            then matches @ [\<lparr>raw_match_id = id, raw_match_name = raw_name asset,
                   raw_match_type = raw_type asset,
                   raw_score = calculateMatchScore (withDefaults asset) st,
                   raw_match_gender = raw_gender asset\<rparr>]
            else matches) (map rawMatch acc) (rawCatalog xs) =
   map rawMatch (acc @ filter (\<lambda>m. 0 < score m) (map (matchOf st) xs))"
  (is "foldl ?f _ _ = _")
proof (induction xs arbitrary: acc)
  case Nil
  then show ?case by (simp add: rawCatalog_def)
next
  case (Cons x xs)
  obtain k a where x: "x = (k, a)" by (cases x)
  let ?acc = "if 0 < calculateMatchScore a st then acc @ [matchOf st (k, a)] else acc"
  have f: "raw_name (rawAsset a) = Some (asset_name a)" "raw_type (rawAsset a) = asset_type a"
    "raw_gender (rawAsset a) = Some (asset_gender a)"
    by (simp_all add: rawAsset_def)
  have step: "?f (map rawMatch acc) (k, rawAsset a) = map rawMatch ?acc"
    by (simp add: withDefaults_rawAsset rawMatch_def matchOf_def f)
  have "foldl ?f (map rawMatch acc) (rawCatalog (x # xs)) =
      foldl ?f (?f (map rawMatch acc) (k, rawAsset a)) (rawCatalog xs)"
    by (simp add: rawCatalog_def x)
  also have "\<dots> = foldl ?f (map rawMatch ?acc) (rawCatalog xs)"
    by (simp only: step)
  also have "\<dots> = map rawMatch (?acc @ filter (\<lambda>m. 0 < score m) (map (matchOf st) xs))"
    by (rule Cons)
  also have "\<dots> =
      map rawMatch (acc @ filter (\<lambda>m. 0 < score m) (map (matchOf st) (x # xs)))"
    by (simp add: x matchOf_def)
  finally show ?case .
qed

lemma insertBy_rawMatch:
  "insertBy (\<lambda>a b. int (raw_score b) - int (raw_score a)) (rawMatch x) (map rawMatch ys) =
   map rawMatch (insertBy (\<lambda>a b. int (score b) - int (score a)) x ys)"
  by (induction ys) (auto simp: rawMatch_def)

lemma sortBy_rawMatch:
  "sortBy (\<lambda>a b. int (raw_score b) - int (raw_score a)) (map rawMatch xs) =
   map rawMatch (sortBy (\<lambda>a b. int (score b) - int (score a)) xs)"
  by (induction xs) (auto simp: sortBy_def insertBy_rawMatch)

lemma findAssets_checked_typed:
  "findAssets_checked (rawCatalog (assets this)) description =
     Inr (map rawMatch (findAssets this description))"
  using raw_push [of "extractSearchTerms description" "[]" "assets this"]
  by (simp add: findAssets_checked_total findAssets_eq scored_def sortBy_rawMatch take_map)

lemma map_of_rawMatch:
  "map_of (map (\<lambda>(t, m). (t, rawMatch m)) al) k = map_option rawMatch (map_of al k)"
  by (induction al) auto

lemma update_rawMatch:
  "AList.update k (rawMatch v) (map (\<lambda>(t, m). (t, rawMatch m)) al) =
   map (\<lambda>(t, m). (t, rawMatch m)) (AList.update k v al)"
  by (induction al) auto

lemma group_checked:
  "forEachE (\<lambda>assetsByType asset.
      thenE (case map_of assetsByType (raw_match_type asset) of
               None \<Rightarrow> Inr True
             | Some best \<Rightarrow>
                 thenE (callOn (map_of assetsByType (raw_match_type asset)) raw_score)
                   (\<lambda>s. Inr (s < raw_score asset)))
        (\<lambda>better.
           Inr (if better
                then AList.update (raw_match_type asset) asset assetsByType
                else assetsByType)))
     (map (\<lambda>(t, m). (t, rawMatch m)) acc) (map rawMatch xs) =
   Inr (map (\<lambda>(t, m). (t, rawMatch m))
     (foldl (\<lambda>assetsByType asset.
              if (case map_of assetsByType (match_type asset) of
                    None \<Rightarrow> True
                  | Some best \<Rightarrow> score best < score asset)
              then AList.update (match_type asset) asset assetsByType
              else assetsByType) acc xs))"
proof (induction xs arbitrary: acc)
  case Nil
  then show ?case by simp
next
  case (Cons x xs)
  have t: "raw_match_type (rawMatch x) = match_type x" "raw_score (rawMatch x) = score x"
    by (simp_all add: rawMatch_def)
  show ?case
  proof (cases "map_of acc (match_type x)")
    case None
    then show ?thesis
      using Cons [of "AList.update (match_type x) x acc"]
      by (simp add: t map_of_rawMatch thenE_Inr update_rawMatch)
  next
    case (Some best)
    have b: "raw_score (rawMatch best) = score best" by (simp add: rawMatch_def)
    show ?thesis
    proof (cases "score best < score x")
      case True
      with Some show ?thesis
        using Cons [of "AList.update (match_type x) x acc"]
        by (simp add: t b map_of_rawMatch thenE_Inr callOn_Some update_rawMatch)
    next
      case False
      with Some show ?thesis
        using Cons [of acc]
        by (simp add: t b map_of_rawMatch thenE_Inr callOn_Some)
    qed
  qed
qed

lemma config_rawMatch:
  "foldl (\<lambda>config (type, asset).
            case mapTypeToConfigKey type of
              None \<Rightarrow> config
            | Some configKey \<Rightarrow> AList.update configKey (raw_match_id asset) config)
     c (map (\<lambda>(t, m). (t, rawMatch m)) al) =
   foldl (\<lambda>config (type, asset).
            case mapTypeToConfigKey type of
              None \<Rightarrow> config
            | Some configKey \<Rightarrow> AList.update configKey (match_id asset) config) c al"
  by (induction al arbitrary: c) (auto simp: rawMatch_def split: option.split)

lemma buildAvatarConfig_checked_typed:
  "buildAvatarConfig_checked (rawCatalog (assets this)) description =
     Inr (rawConfig (buildAvatarConfig this description))"
proof -
  let ?found = "findAssets this description"
  have m: "map snd (map (\<lambda>(t, m). (t, rawMatch m)) al) = map rawMatch (map snd al)" for al
    by (induction al) auto
  have g: "forEachE (\<lambda>assetsByType asset.
      thenE (case map_of assetsByType (raw_match_type asset) of
               None \<Rightarrow> Inr True
             | Some best \<Rightarrow>
                 thenE (callOn (map_of assetsByType (raw_match_type asset)) raw_score)
                   (\<lambda>s. Inr (s < raw_score asset)))
        (\<lambda>better.
           Inr (if better
                then AList.update (raw_match_type asset) asset assetsByType
                else assetsByType)))
     [] (map rawMatch ?found) =
     Inr (map (\<lambda>(t, m). (t, rawMatch m)) (groupByType ?found))"
    using group_checked [of "[]" ?found] by (simp add: groupByType_def)
  have "buildAvatarConfig_checked (rawCatalog (assets this)) description =
      Inr \<lparr>raw_config_gender = determineGender description,
           raw_config_assets = map snd (map (\<lambda>(t, m). (t, rawMatch m)) (groupByType ?found)),
           raw_config = buildConfig (groupByType ?found)\<rparr>"
    unfolding buildAvatarConfig_checked_def Let_def findAssets_checked_typed thenE_Inr g
      config_rawMatch buildConfig_def ..
  also have "\<dots> = Inr (rawConfig (buildAvatarConfig this description))"
    unfolding m by (simp add: rawConfig_def buildAvatarConfig_def Let_def)
  finally show ?thesis .
qed

section \<open>Evaluating the code on the sample catalog\<close>

lemma asset_fields:
  "asset_name outfit_leather_jacket_black = ''Black Leather Jacket''"
  "asset_type outfit_leather_jacket_black = ''outfit''"
  "asset_gender outfit_leather_jacket_black = [''male'', ''female'']"
  "asset_tags outfit_leather_jacket_black = [''jacket'', ''leather'', ''black'', ''casual'', ''cool'']"
  "asset_name outfit_blue_jeans = ''Blue Denim Jeans''"
  "asset_type outfit_blue_jeans = ''bottom''"
  "asset_gender outfit_blue_jeans = [''male'', ''female'']"
  "asset_tags outfit_blue_jeans = [''jeans'', ''denim'', ''blue'', ''casual'', ''pants'']"
  "asset_name outfit_white_tshirt = ''White T-Shirt''"
  "asset_type outfit_white_tshirt = ''top''"
  "asset_gender outfit_white_tshirt = [''male'', ''female'']"
  "asset_tags outfit_white_tshirt = [''shirt'', ''tshirt'', ''white'', ''casual'', ''basic'']"
  "asset_name outfit_hoodie_gray = ''Gray Hoodie''"
  "asset_type outfit_hoodie_gray = ''top''"
  "asset_gender outfit_hoodie_gray = [''male'', ''female'']"
  "asset_tags outfit_hoodie_gray = [''hoodie'', ''gray'', ''casual'', ''comfortable'', ''sweater'']"
  "asset_name outfit_business_suit = ''Business Suit''"
  "asset_type outfit_business_suit = ''outfit''"
  "asset_gender outfit_business_suit = [''male'', ''female'']"
  "asset_tags outfit_business_suit = [''suit'', ''business'', ''formal'', ''professional'', ''jacket'']"
  "asset_name glasses_sunglasses_black = ''Black Sunglasses''"
  "asset_type glasses_sunglasses_black = ''glasses''"
  "asset_gender glasses_sunglasses_black = [''male'', ''female'']"
  "asset_tags glasses_sunglasses_black = [''sunglasses'', ''black'', ''cool'', ''glasses'', ''eyewear'']"
  "asset_name glasses_reading = ''Reading Glasses''"
  "asset_type glasses_reading = ''glasses''"
  "asset_gender glasses_reading = [''male'', ''female'']"
  "asset_tags glasses_reading = [''glasses'', ''reading'', ''eyewear'', ''clear'']"
  "asset_name hair_short_black = ''Short Black Hair''"
  "asset_type hair_short_black = ''hair''"
  "asset_gender hair_short_black = [''male'']"
  "asset_tags hair_short_black = [''hair'', ''short'', ''black'', ''neat'']"
  "asset_name hair_long_brown = ''Long Brown Hair''"
  "asset_type hair_long_brown = ''hair''"
  "asset_gender hair_long_brown = [''female'']"
  "asset_tags hair_long_brown = [''hair'', ''long'', ''brown'', ''flowing'']"
  "asset_name hair_beard_full = ''Full Beard''"
  "asset_type hair_beard_full = ''facialHair''"
  "asset_gender hair_beard_full = [''male'']"
  "asset_tags hair_beard_full = [''beard'', ''facial'', ''hair'', ''full'', ''masculine'']"
  by (simp_all add: mkAsset_def outfit_leather_jacket_black_def outfit_blue_jeans_def outfit_white_tshirt_def outfit_hoodie_gray_def outfit_business_suit_def glasses_sunglasses_black_def glasses_reading_def hair_short_black_def hair_long_brown_def hair_beard_full_def)

lemma lower_names:
  "toLowerCase ''Black Leather Jacket'' = ''black leather jacket''"
  "toLowerCase ''Blue Denim Jeans'' = ''blue denim jeans''"
  "toLowerCase ''White T-Shirt'' = ''white t-shirt''"
  "toLowerCase ''Gray Hoodie'' = ''gray hoodie''"
  "toLowerCase ''Business Suit'' = ''business suit''"
  "toLowerCase ''Black Sunglasses'' = ''black sunglasses''"
  "toLowerCase ''Reading Glasses'' = ''reading glasses''"
  "toLowerCase ''Short Black Hair'' = ''short black hair''"
  "toLowerCase ''Long Brown Hair'' = ''long brown hair''"
  "toLowerCase ''Full Beard'' = ''full beard''"
  "toLowerCase ''male'' = ''male''"
  "toLowerCase ''female'' = ''female''"
  by code_simp+

lemmas score_eval =
  calculateMatchScore_def genderMatch_def removePlural_def asset_fields lower_names Let_def

lemma terms_q1:
  "extractSearchTerms ''black leather jacket jeans'' =
     \<lparr>colors = [''black''], materials = [''leather''], types = [''jacket'', ''jeans''],
      styles = [], gender = [],
      keywords' = [''black'', ''leather'', ''jacket'', ''jeans'']\<rparr>"
  by code_simp

lemma scores_q1:
  "calculateMatchScore outfit_leather_jacket_black (extractSearchTerms ''black leather jacket jeans'') = 23"
  "calculateMatchScore outfit_blue_jeans (extractSearchTerms ''black leather jacket jeans'') = 11"
  "calculateMatchScore outfit_white_tshirt (extractSearchTerms ''black leather jacket jeans'') = 0"
  "calculateMatchScore outfit_hoodie_gray (extractSearchTerms ''black leather jacket jeans'') = 0"
  "calculateMatchScore outfit_business_suit (extractSearchTerms ''black leather jacket jeans'') = 11"
  "calculateMatchScore glasses_sunglasses_black (extractSearchTerms ''black leather jacket jeans'') = 6"
  "calculateMatchScore glasses_reading (extractSearchTerms ''black leather jacket jeans'') = 0"
  "calculateMatchScore hair_short_black (extractSearchTerms ''black leather jacket jeans'') = 6"
  "calculateMatchScore hair_long_brown (extractSearchTerms ''black leather jacket jeans'') = 0"
  "calculateMatchScore hair_beard_full (extractSearchTerms ''black leather jacket jeans'') = 0"
  by (simp_all add: terms_q1 score_eval)

lemma scored_q1:
  "map (\<lambda>m. (match_id m, score m)) (scored new_AssetMapper ''black leather jacket jeans'') =
     [(''outfit_leather_jacket_black'', 23), (''outfit_blue_jeans'', 11),
      (''outfit_white_tshirt'', 0), (''outfit_hoodie_gray'', 0),
      (''outfit_business_suit'', 11), (''glasses_sunglasses_black'', 6),
      (''glasses_reading'', 0), (''hair_short_black'', 6),
      (''hair_long_brown'', 0), (''hair_beard_full'', 0)]"
  by (simp add: scored_def new_AssetMapper_def SAMPLE_ASSETS_def matchOf_def scores_q1)

lemma findAssets_q1:
  "findAssets new_AssetMapper ''black leather jacket jeans'' =
     [\<lparr>match_id = ''outfit_leather_jacket_black'', match_name = ''Black Leather Jacket'',
         match_type = ''outfit'', score = 23, match_gender = [''male'', ''female'']\<rparr>,
      \<lparr>match_id = ''outfit_blue_jeans'', match_name = ''Blue Denim Jeans'',
         match_type = ''bottom'', score = 11, match_gender = [''male'', ''female'']\<rparr>,
      \<lparr>match_id = ''outfit_business_suit'', match_name = ''Business Suit'',
         match_type = ''outfit'', score = 11, match_gender = [''male'', ''female'']\<rparr>,
      \<lparr>match_id = ''glasses_sunglasses_black'', match_name = ''Black Sunglasses'',
         match_type = ''glasses'', score = 6, match_gender = [''male'', ''female'']\<rparr>,
      \<lparr>match_id = ''hair_short_black'', match_name = ''Short Black Hair'',
         match_type = ''hair'', score = 6, match_gender = [''male'']\<rparr>]"
  by (simp add: findAssets_eq scored_def new_AssetMapper_def SAMPLE_ASSETS_def sortBy_def
       matchOf_def scores_q1 asset_fields)

lemma terms_empty:
  "extractSearchTerms '''' =
     \<lparr>colors = [], materials = [], types = [], styles = [], gender = [], keywords' = ['''']\<rparr>"
  by code_simp

lemma score_empty: "calculateMatchScore asset (extractSearchTerms '''') = 0"
  by (simp add: terms_empty calculateMatchScore_def)

lemma gender_empty: "determineGender '''' = ''neutral''"
  by code_simp

lemma terms_male:
  "extractSearchTerms ''male'' =
     \<lparr>colors = [], materials = [], types = [], styles = [], gender = [''male''],
      keywords' = [''male'']\<rparr>"
  by code_simp

lemma terms_q3:
  "extractSearchTerms ''black leather jacket for a man'' =
     \<lparr>colors = [''black''], materials = [''leather''], types = [''jacket''], styles = [],
      gender = [''man''],
      keywords' = [''black'', ''leather'', ''jacket'', ''for'', ''a'', ''man'']\<rparr>"
  by code_simp

lemma terms_red_dress:
  "extractSearchTerms ''red dress'' =
     \<lparr>colors = [''red''], materials = [], types = [''dress''], styles = [], gender = [],
      keywords' = [''red'', ''dress'']\<rparr>"
  by code_simp

lemma female_includes_male: "includes_str (toLowerCase ''female'') (removePlural ''male'')"
  by (simp add: lower_names removePlural_def)

lemma no_gender_substring:
  assumes "ag = ''male'' \<or> ag = ''female''"
    and "g = ''man'' \<or> g = ''woman'' \<or> g = ''boy'' \<or> g = ''girl''"
  shows "\<not> includes_str (toLowerCase ag) (removePlural g)"
  using assms by (auto simp: lower_names removePlural_def)

lemma scores_male:
  "calculateMatchScore outfit_leather_jacket_black (extractSearchTerms ''male'') = 2"
  "calculateMatchScore outfit_blue_jeans (extractSearchTerms ''male'') = 2"
  "calculateMatchScore outfit_white_tshirt (extractSearchTerms ''male'') = 2"
  "calculateMatchScore outfit_hoodie_gray (extractSearchTerms ''male'') = 2"
  "calculateMatchScore outfit_business_suit (extractSearchTerms ''male'') = 2"
  "calculateMatchScore glasses_sunglasses_black (extractSearchTerms ''male'') = 2"
  "calculateMatchScore glasses_reading (extractSearchTerms ''male'') = 2"
  "calculateMatchScore hair_short_black (extractSearchTerms ''male'') = 2"
  "calculateMatchScore hair_long_brown (extractSearchTerms ''male'') = 2"
  "calculateMatchScore hair_beard_full (extractSearchTerms ''male'') = 2"
  by (simp_all add: terms_male score_eval)

lemma findAssets_male_ids:
  "map match_id (findAssets new_AssetMapper ''male'') =
     [''outfit_leather_jacket_black'', ''outfit_blue_jeans'', ''outfit_white_tshirt'',
      ''outfit_hoodie_gray'', ''outfit_business_suit'', ''glasses_sunglasses_black'',
      ''glasses_reading'', ''hair_short_black'', ''hair_long_brown'', ''hair_beard_full'']"
  by (simp add: findAssets_eq scored_def new_AssetMapper_def SAMPLE_ASSETS_def sortBy_def
       matchOf_def scores_male)

lemma sharesNoToken_male: "sharesNoToken hair_short_black ''male''"
  by (simp add: sharesNoToken_def terms_male asset_fields lower_names)

lemma sharesNoToken_red_dress: "sharesNoToken hair_short_black ''red dress''"
  by (simp add: sharesNoToken_def terms_red_dress asset_fields lower_names)

lemma distinct_SAMPLE_ASSETS: "distinct (map fst (assets new_AssetMapper))"
  by (simp add: new_AssetMapper_def SAMPLE_ASSETS_def)

lemmas part_eval =
  typeScore_def colorScore_def materialScore_def styleScore_def genderScore_def
  keywordScore_def genderMatch_def removePlural_def asset_fields lower_names

lemma config_q1:
  "buildAvatarConfig new_AssetMapper ''black leather jacket jeans'' =
     \<lparr>config_gender = ''neutral'',
      config_assets =
        [\<lparr>match_id = ''outfit_leather_jacket_black'', match_name = ''Black Leather Jacket'',
            match_type = ''outfit'', score = 23, match_gender = [''male'', ''female'']\<rparr>,
         \<lparr>match_id = ''outfit_blue_jeans'', match_name = ''Blue Denim Jeans'',
            match_type = ''bottom'', score = 11, match_gender = [''male'', ''female'']\<rparr>,
         \<lparr>match_id = ''glasses_sunglasses_black'', match_name = ''Black Sunglasses'',
            match_type = ''glasses'', score = 6, match_gender = [''male'', ''female'']\<rparr>,
         \<lparr>match_id = ''hair_short_black'', match_name = ''Short Black Hair'',
            match_type = ''hair'', score = 6, match_gender = [''male'']\<rparr>],
      config =
        [(''outfit'', ''outfit_blue_jeans''),
         (''glasses'', ''glasses_sunglasses_black''),
         (''hairStyle'', ''hair_short_black'')]\<rparr>"
proof -
  have g: "determineGender ''black leather jacket jeans'' = ''neutral''"
    by code_simp
  show ?thesis
    by (simp add: buildAvatarConfig_def g findAssets_q1 groupByType_def buildConfig_def
        mapTypeToConfigKey_def typeMap_def)
qed

lemma gender_examples:
  "determineGender ''Indian man with black jacket'' = ''male''"
  "determineGender ''elegant woman in red dress'' = ''female''"
  "determineGender ''a person walking'' = ''neutral''"
  "determineGender ''a woman and a man'' = ''male''"
  by code_simp+

lemma findAssets_checked_bare:
  "findAssets_checked
     [(''bare'', \<lparr>raw_name = None, raw_type = ''hair'', raw_gender = None, raw_tags = None\<rparr>)]
     ''male hair'' =
   Inr [\<lparr>raw_match_id = ''bare'', raw_match_name = None, raw_match_type = ''hair'',
         raw_score = 10, raw_match_gender = None\<rparr>]"
  by code_simp

section \<open>The claims\<close>

text \<open>
  Claim C1. The configuration has at most one entry for a configuration key, and the claim
  wants the asset under a key to be the best-scoring retained match among the matches whose
  type maps to that key. The second loop of \<open>buildAvatarConfig\<close> stores the retained matches
  under their keys one after the other, so the match stored last stays. For the query
  \<open>black leather jacket jeans\<close> the retained matches are the jacket (type \<open>outfit\<close>, score 23)
  and the jeans (type \<open>bottom\<close>, score 11), both types map to the key \<open>outfit\<close>, and the
  configuration holds the jeans under \<open>outfit\<close>.
\<close>

theorem outfit_key_overwritten:
  "map (\<lambda>m. (match_id m, match_type m, score m))
     (findAssets new_AssetMapper ''black leather jacket jeans'') =
     [(''outfit_leather_jacket_black'', ''outfit'', 23), (''outfit_blue_jeans'', ''bottom'', 11),
      (''outfit_business_suit'', ''outfit'', 11), (''glasses_sunglasses_black'', ''glasses'', 6),
      (''hair_short_black'', ''hair'', 6)] \<and>
   map (\<lambda>m. (match_id m, match_type m, score m))
     (config_assets (buildAvatarConfig new_AssetMapper ''black leather jacket jeans'')) =
     [(''outfit_leather_jacket_black'', ''outfit'', 23), (''outfit_blue_jeans'', ''bottom'', 11),
      (''glasses_sunglasses_black'', ''glasses'', 6), (''hair_short_black'', ''hair'', 6)] \<and>
   mapTypeToConfigKey ''outfit'' = Some ''outfit'' \<and>
   mapTypeToConfigKey ''bottom'' = Some ''outfit'' \<and>
   map_of (config (buildAvatarConfig new_AssetMapper ''black leather jacket jeans'')) ''outfit'' =
     Some ''outfit_blue_jeans''"
  by (simp add: config_q1 findAssets_q1 mapTypeToConfigKey_def typeMap_def)

text \<open>
  Claim C2, as stated: an entry that shares no token with the query, and whose type is not in
  the query, scores 0 and is left out of the result of \<open>findAssets\<close> even when a gender token
  of the query matches one of its applicable-gender tags. The gender check adds its 2 points
  whatever the other passes found: for the query \<open>male\<close> the entry \<open>hair_short_black\<close>
  shares no token with the query, its type \<open>hair\<close> does not occur in the query, its score is 2
  and it is in the result.
\<close>

theorem no_token_hit_counterexample:
  "sharesNoToken hair_short_black ''male'' \<and>
   \<not> includes_str (toLowerCase ''male'') (asset_type hair_short_black) \<and>
   calculateMatchScore hair_short_black (extractSearchTerms ''male'') = 2 \<and>
   (''hair_short_black'', hair_short_black) \<in> set (assets new_AssetMapper) \<and>
   ''hair_short_black'' \<in> match_id ` set (findAssets new_AssetMapper ''male'')"
proof (intro conjI)
  show "sharesNoToken hair_short_black ''male''" by (rule sharesNoToken_male)
  show "\<not> includes_str (toLowerCase ''male'') (asset_type hair_short_black)"
    by (simp add: lower_names asset_fields)
  show "calculateMatchScore hair_short_black (extractSearchTerms ''male'') = 2"
    by (rule scores_male)
  show "(''hair_short_black'', hair_short_black) \<in> set (assets new_AssetMapper)"
    by (simp add: new_AssetMapper_def SAMPLE_ASSETS_def)
  have "''hair_short_black'' \<in> set (map match_id (findAssets new_AssetMapper ''male''))"
    unfolding findAssets_male_ids by simp
  then show "''hair_short_black'' \<in> match_id ` set (findAssets new_AssetMapper ''male'')"
    by simp
qed

text \<open>
  Claim C2, amended: for every query and every catalog entry, if no token of the query (the
  empty token apart) occurs in the name of the entry or in one of its tags, and none is its
  type, then the score of the entry is 2 when a gender token of the query matches one of its
  applicable-gender tags and 0 when none does. With the score 0 the entry is not in the result
  of \<open>findAssets\<close> (the keys of a catalog are distinct). With the score 2 its match is in the
  result when the catalog has at most 10 entries, as the sample catalog has.
\<close>

theorem no_token_hit_score:
  assumes "sharesNoToken asset description"
  shows "calculateMatchScore asset (extractSearchTerms description) =
           (if genderMatch asset (extractSearchTerms description) then 2 else 0) \<and>
         (\<not> genderMatch asset (extractSearchTerms description) \<and>
          distinct (map fst (assets this)) \<and> (key, asset) \<in> set (assets this) \<longrightarrow>
            key \<notin> match_id ` set (findAssets this description)) \<and>
         (genderMatch asset (extractSearchTerms description) \<and>
          (key, asset) \<in> set (assets this) \<and> length (assets this) \<le> 10 \<longrightarrow>
            matchOf (extractSearchTerms description) (key, asset)
              \<in> set (findAssets this description) \<and>
            score (matchOf (extractSearchTerms description) (key, asset)) = 2)"
proof -
  let ?st = "extractSearchTerms description"
  have g: "genderScore asset ?st = (if genderMatch asset ?st then 2 else 0)"
    by (auto simp: genderScore_def genderMatch_def)
  have s: "calculateMatchScore asset ?st = (if genderMatch asset ?st then 2 else 0)"
    unfolding calculateMatchScore_parts sharesNoToken_zero [OF assms] g by simp
  show ?thesis
  proof (intro conjI impI)
    show "calculateMatchScore asset ?st = (if genderMatch asset ?st then 2 else 0)"
      by (rule s)
  next
    assume a: "\<not> genderMatch asset ?st \<and> distinct (map fst (assets this)) \<and>
      (key, asset) \<in> set (assets this)"
    with s have "calculateMatchScore asset ?st = 0" by simp
    with a show "key \<notin> match_id ` set (findAssets this description)"
      using excluded_when_zero by blast
  next
    assume a: "genderMatch asset ?st \<and> (key, asset) \<in> set (assets this) \<and>
      length (assets this) \<le> 10"
    with s have "0 < calculateMatchScore asset ?st" by simp
    with a show "matchOf ?st (key, asset) \<in> set (findAssets this description)"
      using included_when_positive by blast
  next
    assume a: "genderMatch asset ?st \<and> (key, asset) \<in> set (assets this) \<and>
      length (assets this) \<le> 10"
    with s show "score (matchOf ?st (key, asset)) = 2" by (simp add: matchOf_def)
  qed
qed

theorem no_token_hit_score_witness:
  "sharesNoToken hair_short_black ''male'' \<and>
   genderMatch hair_short_black (extractSearchTerms ''male'') \<and>
   (''hair_short_black'', hair_short_black) \<in> set (assets new_AssetMapper) \<and>
   length (assets new_AssetMapper) \<le> 10 \<and>
   calculateMatchScore hair_short_black (extractSearchTerms ''male'') = 2 \<and>
   matchOf (extractSearchTerms ''male'') (''hair_short_black'', hair_short_black)
     \<in> set (findAssets new_AssetMapper ''male'') \<and>
   sharesNoToken hair_short_black ''red dress'' \<and>
   \<not> genderMatch hair_short_black (extractSearchTerms ''red dress'') \<and>
   distinct (map fst (assets new_AssetMapper)) \<and>
   calculateMatchScore hair_short_black (extractSearchTerms ''red dress'') = 0 \<and>
   ''hair_short_black'' \<notin> match_id ` set (findAssets new_AssetMapper ''red dress'')"
proof -
  have g1: "genderMatch hair_short_black (extractSearchTerms ''male'')"
    by (simp add: genderMatch_def terms_male asset_fields lower_names removePlural_def)
  have g2: "\<not> genderMatch hair_short_black (extractSearchTerms ''red dress'')"
    by (simp add: genderMatch_def terms_red_dress)
  have e: "(''hair_short_black'', hair_short_black) \<in> set (assets new_AssetMapper)"
    by (simp add: new_AssetMapper_def SAMPLE_ASSETS_def)
  have n: "length (assets new_AssetMapper) \<le> 10"
    by (simp add: new_AssetMapper_def SAMPLE_ASSETS_def)
  from no_token_hit_score [OF sharesNoToken_male, of new_AssetMapper "''hair_short_black''"]
    g1 e n
  have r1: "calculateMatchScore hair_short_black (extractSearchTerms ''male'') = 2 \<and>
      matchOf (extractSearchTerms ''male'') (''hair_short_black'', hair_short_black)
        \<in> set (findAssets new_AssetMapper ''male'')"
    by simp
  from no_token_hit_score [OF sharesNoToken_red_dress, of new_AssetMapper "''hair_short_black''"]
    g2 distinct_SAMPLE_ASSETS e
  have r2: "calculateMatchScore hair_short_black (extractSearchTerms ''red dress'') = 0 \<and>
      ''hair_short_black'' \<notin> match_id ` set (findAssets new_AssetMapper ''red dress'')"
    by simp
  from sharesNoToken_male sharesNoToken_red_dress g1 g2 distinct_SAMPLE_ASSETS e n r1 r2
  show ?thesis by blast
qed

text \<open>
  Claim C3, as stated: for the entry \<open>Black Leather Jacket\<close> and the query
  \<open>black leather jacket for a man\<close> the scorer awards 10 for \<open>jacket\<close>, 5 for \<open>black\<close>, 5 for
  \<open>leather\<close> and 2 for the gender, \<open>man\<close> matching \<open>male\<close>, a total of 22 before the pass over
  the keywords. The only gender token of the query is \<open>man\<close>, which occurs neither in \<open>male\<close>
  nor in \<open>female\<close>: the gender check adds nothing, and the five passes before the keywords add
  20.
\<close>

theorem leather_jacket_example_counterexample:
  "gender (extractSearchTerms ''black leather jacket for a man'') = [''man''] \<and>
   \<not> includes_str ''male'' ''man'' \<and> \<not> includes_str ''female'' ''man'' \<and>
   genderScore outfit_leather_jacket_black
     (extractSearchTerms ''black leather jacket for a man'') = 0 \<and>
   typeScore outfit_leather_jacket_black (extractSearchTerms ''black leather jacket for a man'') +
   colorScore outfit_leather_jacket_black (extractSearchTerms ''black leather jacket for a man'') +
   materialScore outfit_leather_jacket_black
     (extractSearchTerms ''black leather jacket for a man'') +
   styleScore outfit_leather_jacket_black (extractSearchTerms ''black leather jacket for a man'') +
   genderScore outfit_leather_jacket_black
     (extractSearchTerms ''black leather jacket for a man'') = 20"
  by (simp add: terms_q3 part_eval)

text \<open>
  Claim C3, amended: for that entry and that query the scorer awards 10 for the type \<open>jacket\<close>,
  5 for the color \<open>black\<close>, 5 for the material \<open>leather\<close>, nothing for the style and nothing
  for the gender, a total of 20 before the pass over the keywords; that pass adds 1 for each of
  the three tokens longer than 3 (\<open>black\<close>, \<open>leather\<close>, \<open>jacket\<close>), which all occur in the name,
  and the score is 23.
\<close>

theorem leather_jacket_example:
  "outfit_leather_jacket_black =
     \<lparr>asset_id = ''outfit_leather_jacket_black'', asset_name = ''Black Leather Jacket'',
      asset_type = ''outfit'', asset_gender = [''male'', ''female''],
      asset_tags = [''jacket'', ''leather'', ''black'', ''casual'', ''cool'']\<rparr> \<and>
   typeScore outfit_leather_jacket_black
     (extractSearchTerms ''black leather jacket for a man'') = 10 \<and>
   colorScore outfit_leather_jacket_black
     (extractSearchTerms ''black leather jacket for a man'') = 5 \<and>
   materialScore outfit_leather_jacket_black
     (extractSearchTerms ''black leather jacket for a man'') = 5 \<and>
   styleScore outfit_leather_jacket_black
     (extractSearchTerms ''black leather jacket for a man'') = 0 \<and>
   genderScore outfit_leather_jacket_black
     (extractSearchTerms ''black leather jacket for a man'') = 0 \<and>
   keywordScore outfit_leather_jacket_black
     (extractSearchTerms ''black leather jacket for a man'') = 3 \<and>
   filter (\<lambda>k. 3 < length k) (keywords' (extractSearchTerms ''black leather jacket for a man'')) =
     [''black'', ''leather'', ''jacket''] \<and>
   calculateMatchScore outfit_leather_jacket_black
     (extractSearchTerms ''black leather jacket for a man'') = 23"
proof -
  have "outfit_leather_jacket_black =
     \<lparr>asset_id = ''outfit_leather_jacket_black'', asset_name = ''Black Leather Jacket'',
      asset_type = ''outfit'', asset_gender = [''male'', ''female''],
      asset_tags = [''jacket'', ''leather'', ''black'', ''casual'', ''cool'']\<rparr>"
    by (simp add: outfit_leather_jacket_black_def mkAsset_def)
  moreover have "calculateMatchScore outfit_leather_jacket_black
     (extractSearchTerms ''black leather jacket for a man'') = 23"
    unfolding calculateMatchScore_parts by (simp add: terms_q3 part_eval)
  ultimately show ?thesis
    by (simp add: terms_q3 part_eval)
qed

text \<open>
  Claim C4. For every description, \<open>findAssets\<close> returns at most 10 matches, and the score of
  every returned match is positive: an entry whose total score is 0 never appears.
\<close>

theorem findAssets_at_most_10_positive:
  "length (findAssets this description) \<le> 10 \<and>
   (\<forall>m \<in> set (findAssets this description). 0 < score m)"
proof
  show "length (findAssets this description) \<le> 10"
    by (simp add: findAssets_eq)
next
  show "\<forall>m \<in> set (findAssets this description). 0 < score m"
    using findAssets_subset [of this description] by auto
qed

theorem findAssets_at_most_10_positive_witness:
  "length (findAssets new_AssetMapper ''black leather jacket jeans'') = 5 \<and>
   length (findAssets new_AssetMapper ''black leather jacket jeans'') \<le> 10 \<and>
   0 < score (findAssets new_AssetMapper ''black leather jacket jeans'' ! 4)"
  using findAssets_at_most_10_positive [of new_AssetMapper "''black leather jacket jeans''"]
  by (simp add: findAssets_q1)

text \<open>
  Claim C5. For every description, the matches that \<open>findAssets\<close> returns are in
  non-increasing order of score, and the returned matches of any one score are the first
  catalog entries of that score, in the order of the catalog: ties keep the insertion order of
  the catalog, the first inserted first.
\<close>

theorem findAssets_sorted_stable:
  "sorted_wrt (\<lambda>a b. score b \<le> score a) (findAssets this description) \<and>
   (\<forall>k. prefix (filter (\<lambda>m. score m = k) (findAssets this description))
              (filter (\<lambda>m. score m = k) (scored this description)))"
proof
  show "sorted_wrt (\<lambda>a b. score b \<le> score a) (findAssets this description)"
    by (rule findAssets_sorted)
next
  show "\<forall>k. prefix (filter (\<lambda>m. score m = k) (findAssets this description))
              (filter (\<lambda>m. score m = k) (scored this description))"
  proof
    fix k
    let ?all = "filter (\<lambda>m. 0 < score m) (scored this description)"
    let ?srt = "sortBy (\<lambda>a b. int (score b) - int (score a)) ?all"
    have "prefix (take 10 ?srt) ?srt" by (rule take_is_prefix)
    then have "prefix (filter (\<lambda>m. score m = k) (take 10 ?srt)) (filter (\<lambda>m. score m = k) ?srt)"
      by (rule filter_mono_prefix)
    also have "filter (\<lambda>m. score m = k) ?srt = filter (\<lambda>m. score m = k) ?all"
      by (rule filter_sortBy)
    finally have p: "prefix (filter (\<lambda>m. score m = k) (findAssets this description))
        (filter (\<lambda>m. score m = k) ?all)"
      by (simp add: findAssets_eq)
    show "prefix (filter (\<lambda>m. score m = k) (findAssets this description))
              (filter (\<lambda>m. score m = k) (scored this description))"
    proof (cases "k = 0")
      case True
      have "filter (\<lambda>m. score m = k) ?all = []"
        using True by (auto simp: filter_empty_conv)
      with p show ?thesis by simp
    next
      case False
      then have "filter (\<lambda>m. score m = k) ?all =
          filter (\<lambda>m. score m = k) (scored this description)"
        by (simp add: conj_commute cong: conj_cong)
      with p show ?thesis by simp
    qed
  qed
qed

theorem findAssets_sorted_stable_witness:
  "map (\<lambda>m. (match_id m, score m)) (findAssets new_AssetMapper ''black leather jacket jeans'') =
     [(''outfit_leather_jacket_black'', 23), (''outfit_blue_jeans'', 11),
      (''outfit_business_suit'', 11), (''glasses_sunglasses_black'', 6),
      (''hair_short_black'', 6)] \<and>
   sorted_wrt (\<lambda>a b. score b \<le> score a) (findAssets new_AssetMapper ''black leather jacket jeans'') \<and>
   prefix (filter (\<lambda>m. score m = 11) (findAssets new_AssetMapper ''black leather jacket jeans''))
          (filter (\<lambda>m. score m = 11) (scored new_AssetMapper ''black leather jacket jeans''))"
proof -
  note t = findAssets_sorted_stable [of new_AssetMapper "''black leather jacket jeans''"]
  have a: "map (\<lambda>m. (match_id m, score m))
      (findAssets new_AssetMapper ''black leather jacket jeans'') =
     [(''outfit_leather_jacket_black'', 23), (''outfit_blue_jeans'', 11),
      (''outfit_business_suit'', 11), (''glasses_sunglasses_black'', 6),
      (''hair_short_black'', 6)]"
    by (simp add: findAssets_q1)
  from t have b: "sorted_wrt (\<lambda>a b. score b \<le> score a)
      (findAssets new_AssetMapper ''black leather jacket jeans'')"
    by (rule conjunct1)
  from t have c: "prefix
      (filter (\<lambda>m. score m = 11) (findAssets new_AssetMapper ''black leather jacket jeans''))
      (filter (\<lambda>m. score m = 11) (scored new_AssetMapper ''black leather jacket jeans''))"
    by blast
  from a b c show ?thesis by (intro conjI)
qed

text \<open>
  Claim C6. For every description, \<open>buildAvatarConfig\<close> infers the gender from whole words, in
  any mix of cases: \<open>male\<close> when one of \<open>man\<close>, \<open>male\<close>, \<open>boy\<close>, \<open>gentleman\<close> occurs as a word,
  otherwise \<open>female\<close> when one of \<open>woman\<close>, \<open>female\<close>, \<open>girl\<close>, \<open>lady\<close> does, otherwise
  \<open>neutral\<close>; so \<open>male\<close> wins when words of both lists occur. The left side runs the two
  patterns of the code; the right side says what a whole-word occurrence is. The three
  descriptions of the claim give \<open>male\<close>, \<open>female\<close> and \<open>neutral\<close>.
\<close>

theorem gender_by_whole_word:
  "determineGender description =
     (if \<exists>w \<in> set [''man'', ''male'', ''boy'', ''gentleman'']. occursAsWord w description
      then ''male''
      else if \<exists>w \<in> set [''woman'', ''female'', ''girl'', ''lady'']. occursAsWord w description
      then ''female''
      else ''neutral'') \<and>
   config_gender (buildAvatarConfig this description) = determineGender description \<and>
   determineGender ''Indian man with black jacket'' = ''male'' \<and>
   determineGender ''elegant woman in red dress'' = ''female'' \<and>
   determineGender ''a person walking'' = ''neutral'' \<and>
   determineGender ''a woman and a man'' = ''male''"
proof (intro conjI)
  show "determineGender description =
     (if \<exists>w \<in> set [''man'', ''male'', ''boy'', ''gentleman'']. occursAsWord w description
      then ''male''
      else if \<exists>w \<in> set [''woman'', ''female'', ''girl'', ''lady'']. occursAsWord w description
      then ''female''
      else ''neutral'')"
    unfolding determineGender_def malePattern_words femalePattern_words ..
  show "config_gender (buildAvatarConfig this description) = determineGender description"
    by (simp add: buildAvatarConfig_def Let_def)
qed (rule gender_examples)+

text \<open>
  Claim C7. Neither \<open>findAssets\<close> nor \<open>buildAvatarConfig\<close> throws, whatever the description.
  In the embedding with the failing reads written out, \<open>findAssets\<close> returns a value and not
  an error for every description and every catalog, also one whose entries lack a name, tags
  or genders; on a catalog whose entries have all their fields it returns the matches of the
  first embedding; and on the catalog that the constructor installs \<open>buildAvatarConfig\<close>
  returns the configuration of the first embedding, for every description. For the empty
  description \<open>findAssets\<close> returns the empty sequence, and \<open>buildAvatarConfig\<close> returns the
  gender \<open>neutral\<close>, no match and an empty configuration, whatever the catalog.
\<close>

theorem never_throws:
  "(\<exists>found. findAssets_checked catalog description = Inr found) \<and>
   findAssets_checked (rawCatalog (assets this)) description =
     Inr (map rawMatch (findAssets this description)) \<and>
   buildAvatarConfig_checked (rawCatalog (assets new_AssetMapper)) description =
     Inr (rawConfig (buildAvatarConfig new_AssetMapper description)) \<and>
   findAssets this '''' = [] \<and>
   buildAvatarConfig this '''' =
     \<lparr>config_gender = ''neutral'', config_assets = [], config = []\<rparr>"
proof (intro conjI)
  show "\<exists>found. findAssets_checked catalog description = Inr found"
    unfolding findAssets_checked_total by blast
  show "findAssets_checked (rawCatalog (assets this)) description =
     Inr (map rawMatch (findAssets this description))"
    by (rule findAssets_checked_typed)
  show "buildAvatarConfig_checked (rawCatalog (assets new_AssetMapper)) description =
     Inr (rawConfig (buildAvatarConfig new_AssetMapper description))"
    by (rule buildAvatarConfig_checked_typed)
  show e: "findAssets this '''' = []"
    by (simp add: findAssets_eq scored_def matchOf_def score_empty sortBy_def)
  then show "buildAvatarConfig this '''' =
     \<lparr>config_gender = ''neutral'', config_assets = [], config = []\<rparr>"
    by (simp add: buildAvatarConfig_def gender_empty groupByType_def buildConfig_def)
qed


theorem never_throws_witness:
  "findAssets_checked
     [(''bare'', \<lparr>raw_name = None, raw_type = ''hair'', raw_gender = None, raw_tags = None\<rparr>)]
     ''male hair'' =
   Inr [\<lparr>raw_match_id = ''bare'', raw_match_name = None, raw_match_type = ''hair'',
         raw_score = 10, raw_match_gender = None\<rparr>] \<and>
   buildAvatarConfig_checked (rawCatalog (assets new_AssetMapper)) ''black leather jacket jeans'' =
     Inr (rawConfig (buildAvatarConfig new_AssetMapper ''black leather jacket jeans'')) \<and>
   map_of (raw_config (rawConfig (buildAvatarConfig new_AssetMapper ''black leather jacket jeans'')))
     ''glasses'' = Some ''glasses_sunglasses_black''"
proof -
  note t = never_throws [of
      "[(''bare'', \<lparr>raw_name = None, raw_type = ''hair'', raw_gender = None, raw_tags = None\<rparr>)]"
      "''black leather jacket jeans''" new_AssetMapper]
  from t have "buildAvatarConfig_checked (rawCatalog (assets new_AssetMapper))
      ''black leather jacket jeans'' =
     Inr (rawConfig (buildAvatarConfig new_AssetMapper ''black leather jacket jeans''))"
    by blast
  moreover have "map_of (raw_config (rawConfig
      (buildAvatarConfig new_AssetMapper ''black leather jacket jeans''))) ''glasses'' =
      Some ''glasses_sunglasses_black''"
    by (simp add: rawConfig_def config_q1)
  ultimately show ?thesis using findAssets_checked_bare by blast
qed

text \<open>
  Claim C8. For every description, the matches that \<open>buildAvatarConfig\<close> returns (on the
  sample catalog, which the constructor installs) hold at most one match of a type, and every
  type among the results of \<open>findAssets\<close> has its match. The match kept for a type is the
  best-scoring result of that type, and the first of them in the order of \<open>findAssets\<close> when
  several have that score.
\<close>

theorem best_match_per_type:
  "distinct (map match_type (config_assets (buildAvatarConfig new_AssetMapper description))) \<and>
   match_type ` set (config_assets (buildAvatarConfig new_AssetMapper description)) =
     match_type ` set (findAssets new_AssetMapper description) \<and>
   (\<forall>m \<in> set (config_assets (buildAvatarConfig new_AssetMapper description)).
      firstBest (findAssets new_AssetMapper description) m)"
proof -
  let ?found = "findAssets new_AssetMapper description"
  have c: "config_assets (buildAvatarConfig new_AssetMapper description) =
      map snd (groupByType ?found)"
    by (simp add: buildAvatarConfig_def Let_def)
  have 1: "distinct (map match_type (map snd (groupByType ?found)))"
    using groupByType_inv [of ?found] by (simp add: groupByType_types)
  have "map match_type (map snd (groupByType ?found)) = map fst (groupByType ?found)"
    by (simp add: groupByType_types)
  then have "set (map match_type (map snd (groupByType ?found))) =
      set (map fst (groupByType ?found))" by simp
  then have 2: "match_type ` set (map snd (groupByType ?found)) = match_type ` set ?found"
    using groupByType_keys [of ?found] by (simp add: image_image)
  have 3: "\<forall>m \<in> set (map snd (groupByType ?found)). firstBest ?found m"
    using groupByType_entries [of _ _ ?found] by auto
  from 1 2 3 show ?thesis unfolding c by blast
qed

theorem best_match_per_type_witness:
  "map (\<lambda>m. (match_id m, match_type m, score m))
     (config_assets (buildAvatarConfig new_AssetMapper ''black leather jacket jeans'')) =
     [(''outfit_leather_jacket_black'', ''outfit'', 23), (''outfit_blue_jeans'', ''bottom'', 11),
      (''glasses_sunglasses_black'', ''glasses'', 6), (''hair_short_black'', ''hair'', 6)] \<and>
   distinct (map match_type
     (config_assets (buildAvatarConfig new_AssetMapper ''black leather jacket jeans''))) \<and>
   firstBest (findAssets new_AssetMapper ''black leather jacket jeans'')
     (hd (config_assets (buildAvatarConfig new_AssetMapper ''black leather jacket jeans'')))"
proof -
  note t = best_match_per_type [of "''black leather jacket jeans''"]
  have a: "map (\<lambda>m. (match_id m, match_type m, score m))
     (config_assets (buildAvatarConfig new_AssetMapper ''black leather jacket jeans'')) =
     [(''outfit_leather_jacket_black'', ''outfit'', 23), (''outfit_blue_jeans'', ''bottom'', 11),
      (''glasses_sunglasses_black'', ''glasses'', 6), (''hair_short_black'', ''hair'', 6)]"
    by (simp add: config_q1)
  have "hd (config_assets (buildAvatarConfig new_AssetMapper ''black leather jacket jeans''))
      \<in> set (config_assets (buildAvatarConfig new_AssetMapper ''black leather jacket jeans''))"
    by (simp add: config_q1)
  with t a show ?thesis by blast
qed

text \<open>
  Claim C9. For every query the raw keyword list is the list of all the tokens that splitting
  the lower-cased query at whitespace gives, the tokens of fewer than 4 code units included: no
  code unit but whitespace is lost. The score of an entry is its score without any keyword,
  plus 1 for each keyword that is longer than 3 and occurs in the name of the entry or inside
  one of its tags: one more keyword adds 1 to the score when it is such a token and nothing
  otherwise, and without the keywords of length 3 or less the score is the same.
\<close>


theorem keyword_pass:
  "keywords' (extractSearchTerms description) = split_ws (toLowerCase description) \<and>
   concat (keywords' (extractSearchTerms description)) =
     filter (\<lambda>c. \<not> isWhitespace c) (toLowerCase description) \<and>
   calculateMatchScore asset st =
     calculateMatchScore asset (st\<lparr>keywords' := []\<rparr>) +
     length (filter (\<lambda>k. 3 < length k \<and>
                (includes_str (toLowerCase (asset_name asset)) k \<or>
                 list_ex (\<lambda>tag. includes_str tag k) (asset_tags asset))) (keywords' st)) \<and>
   calculateMatchScore asset (st\<lparr>keywords' := keywords' st @ [k]\<rparr>) =
     calculateMatchScore asset st +
     (if 3 < length k \<and>
         (includes_str (toLowerCase (asset_name asset)) k \<or>
          list_ex (\<lambda>tag. includes_str tag k) (asset_tags asset))
      then 1 else 0) \<and>
   calculateMatchScore asset (st\<lparr>keywords' := filter (\<lambda>k. 3 < length k) (keywords' st)\<rparr>) =
     calculateMatchScore asset st"
proof (intro conjI)
  show "keywords' (extractSearchTerms description) = split_ws (toLowerCase description)"
    by (simp add: extractSearchTerms_def Let_def)
  then show "concat (keywords' (extractSearchTerms description)) =
     filter (\<lambda>c. \<not> isWhitespace c) (toLowerCase description)"
    by (simp add: split_ws_def concat_splitFrom)
  show "calculateMatchScore asset st =
     calculateMatchScore asset (st\<lparr>keywords' := []\<rparr>) +
     length (filter (\<lambda>k. 3 < length k \<and>
                (includes_str (toLowerCase (asset_name asset)) k \<or>
                 list_ex (\<lambda>tag. includes_str tag k) (asset_tags asset))) (keywords' st))"
    by (rule calculateMatchScore_keywords)
  show "calculateMatchScore asset (st\<lparr>keywords' := keywords' st @ [k]\<rparr>) =
     calculateMatchScore asset st +
     (if 3 < length k \<and>
         (includes_str (toLowerCase (asset_name asset)) k \<or>
          list_ex (\<lambda>tag. includes_str tag k) (asset_tags asset))
      then 1 else 0)"
    by (simp add: calculateMatchScore_keywords [of asset "st\<lparr>keywords' := keywords' st @ [k]\<rparr>"]
        calculateMatchScore_keywords [of asset st])
  show "calculateMatchScore asset (st\<lparr>keywords' := filter (\<lambda>k. 3 < length k) (keywords' st)\<rparr>) =
     calculateMatchScore asset st"
    by (simp add: calculateMatchScore_keywords
          [of asset "st\<lparr>keywords' := filter (\<lambda>k. 3 < length k) (keywords' st)\<rparr>"]
        calculateMatchScore_keywords [of asset st] conj_commute conj_left_commute cong: conj_cong)
qed

theorem keyword_pass_witness:
  "keywords' (extractSearchTerms ''black leather jacket for a man'') =
     [''black'', ''leather'', ''jacket'', ''for'', ''a'', ''man''] \<and>
   calculateMatchScore outfit_leather_jacket_black
     ((extractSearchTerms ''black leather jacket for a man'')\<lparr>keywords' := []\<rparr>) = 20 \<and>
   calculateMatchScore outfit_leather_jacket_black
     (extractSearchTerms ''black leather jacket for a man'') = 23"
proof -
  note t = keyword_pass [of "''black leather jacket for a man''" outfit_leather_jacket_black
      "extractSearchTerms ''black leather jacket for a man''" "''x''"]
  have k: "keywords' (extractSearchTerms ''black leather jacket for a man'') =
     [''black'', ''leather'', ''jacket'', ''for'', ''a'', ''man'']"
    by (simp add: terms_q3)
  have b: "calculateMatchScore outfit_leather_jacket_black
     ((extractSearchTerms ''black leather jacket for a man'')\<lparr>keywords' := []\<rparr>) = 20"
    by (simp add: terms_q3 score_eval)
  from t have "calculateMatchScore outfit_leather_jacket_black
      (extractSearchTerms ''black leather jacket for a man'') =
     calculateMatchScore outfit_leather_jacket_black
       ((extractSearchTerms ''black leather jacket for a man'')\<lparr>keywords' := []\<rparr>) +
     length (filter (\<lambda>k. 3 < length k \<and>
                (includes_str (toLowerCase (asset_name outfit_leather_jacket_black)) k \<or>
                 list_ex (\<lambda>tag. includes_str tag k) (asset_tags outfit_leather_jacket_black)))
        (keywords' (extractSearchTerms ''black leather jacket for a man'')))"
    by blast
  then have "calculateMatchScore outfit_leather_jacket_black
      (extractSearchTerms ''black leather jacket for a man'') = 23"
    unfolding b k by (simp add: asset_fields lower_names)
  with k b show ?thesis by blast
qed


text \<open>
  Claim C10. The gender check asks whether the gender token of the query, its final \<open>s\<close>
  removed, occurs inside an applicable-gender tag of the entry. So for every entry that has the
  tag \<open>female\<close>, a query with the token \<open>male\<close> earns the 2 points of the check; and when the
  tags of the entry are among \<open>male\<close> and \<open>female\<close> and the gender tokens of the query are
  among \<open>man\<close>, \<open>woman\<close>, \<open>boy\<close> and \<open>girl\<close>, the check adds nothing. The score is the sum of
  what the six passes add.
\<close>

theorem gender_bonus_substring:
  "(''female'' \<in> set (asset_gender asset) \<and>
    ''male'' \<in> set (keywords' (extractSearchTerms description)) \<longrightarrow>
      genderScore asset (extractSearchTerms description) = 2) \<and>
   (set (asset_gender asset) \<subseteq> {''male'', ''female''} \<and>
    set (gender (extractSearchTerms description)) \<subseteq> {''man'', ''woman'', ''boy'', ''girl''} \<longrightarrow>
      genderScore asset (extractSearchTerms description) = 0) \<and>
   calculateMatchScore asset (extractSearchTerms description) =
     typeScore asset (extractSearchTerms description) +
     colorScore asset (extractSearchTerms description) +
     materialScore asset (extractSearchTerms description) +
     styleScore asset (extractSearchTerms description) +
     genderScore asset (extractSearchTerms description) +
     keywordScore asset (extractSearchTerms description)"
proof (intro conjI impI)
  let ?st = "extractSearchTerms description"
  assume a: "''female'' \<in> set (asset_gender asset) \<and> ''male'' \<in> set (keywords' ?st)"
  then have g: "''male'' \<in> set (gender ?st)"
    by (simp add: gender_in_keywords genderTerms_def)
  then have "gender ?st \<noteq> []" by auto
  moreover have "genderMatch asset ?st"
    unfolding genderMatch_def list_ex_iff Let_def
    using a g female_includes_male by blast
  ultimately show "genderScore asset ?st = 2"
    by (simp add: genderScore_def)
next
  let ?st = "extractSearchTerms description"
  assume a: "set (asset_gender asset) \<subseteq> {''male'', ''female''} \<and>
    set (gender ?st) \<subseteq> {''man'', ''woman'', ''boy'', ''girl''}"
  have "\<not> genderMatch asset ?st"
    unfolding genderMatch_def list_ex_iff Let_def
  proof (intro notI, elim bexE)
    fix g ag
    assume "g \<in> set (gender ?st)" "ag \<in> set (asset_gender asset)"
      and i: "includes_str (toLowerCase ag) (removePlural g)"
    with a have "ag = ''male'' \<or> ag = ''female''"
      and "g = ''man'' \<or> g = ''woman'' \<or> g = ''boy'' \<or> g = ''girl''"
      by auto
    then show False using i no_gender_substring by blast
  qed
  then show "genderScore asset ?st = 0"
    by (simp add: genderScore_def)
next
  show "calculateMatchScore asset (extractSearchTerms description) =
     typeScore asset (extractSearchTerms description) +
     colorScore asset (extractSearchTerms description) +
     materialScore asset (extractSearchTerms description) +
     styleScore asset (extractSearchTerms description) +
     genderScore asset (extractSearchTerms description) +
     keywordScore asset (extractSearchTerms description)"
    by (rule calculateMatchScore_parts)
qed

theorem gender_bonus_substring_witness:
  "''female'' \<in> set (asset_gender hair_long_brown) \<and>
   ''male'' \<in> set (keywords' (extractSearchTerms ''male'')) \<and>
   genderScore hair_long_brown (extractSearchTerms ''male'') = 2 \<and>
   set (asset_gender outfit_leather_jacket_black) \<subseteq> {''male'', ''female''} \<and>
   gender (extractSearchTerms ''black leather jacket for a man'') = [''man''] \<and>
   genderScore outfit_leather_jacket_black
     (extractSearchTerms ''black leather jacket for a man'') = 0"
proof -
  have h1: "''female'' \<in> set (asset_gender hair_long_brown) \<and>
      ''male'' \<in> set (keywords' (extractSearchTerms ''male''))"
    by (simp add: asset_fields terms_male)
  have h2: "set (asset_gender outfit_leather_jacket_black) \<subseteq> {''male'', ''female''} \<and>
      set (gender (extractSearchTerms ''black leather jacket for a man'')) \<subseteq>
        {''man'', ''woman'', ''boy'', ''girl''}"
    by (simp add: asset_fields terms_q3)
  have g: "gender (extractSearchTerms ''black leather jacket for a man'') = [''man'']"
    by (simp add: terms_q3)
  from h1 gender_bonus_substring [of hair_long_brown "''male''"]
  have r1: "genderScore hair_long_brown (extractSearchTerms ''male'') = 2" by blast
  from h2 gender_bonus_substring [of outfit_leather_jacket_black "''black leather jacket for a man''"]
  have r2: "genderScore outfit_leather_jacket_black
     (extractSearchTerms ''black leather jacket for a man'') = 0" by blast
  from h1 h2 g r1 r2 show ?thesis by blast
qed

end
